theory Spec2Isabelle
  imports Complex_Main
begin

section \<open>Arrays and object identity\<close>

text \<open>
  A numpy array is a mutable object.  Its contents are a three-dimensional array of
  integers, indexed (Z, Y, X), written here as nested lists.  Objects live in a store:
  an address is an index into the list of all arrays created so far, so that two
  references alias exactly when their addresses are equal, and \<open>ndarray.copy()\<close> yields
  an address that was not in use before.
\<close>

type_synonym ndarray = "int list list list"
type_synonym addr = nat
type_synonym heap = "ndarray list"

definition alloc :: "heap \<Rightarrow> ndarray \<Rightarrow> heap \<times> addr" where
  "alloc h v = (h @ [v], length h)"

text \<open>\<open>a.copy()\<close>: a new array object holding the contents of \<open>a\<close>.\<close>

definition np_copy :: "heap \<Rightarrow> addr \<Rightarrow> heap \<times> addr" where
  "np_copy h a = alloc h (h ! a)"

text \<open>
  Python's \<open>xs[a:b]\<close> for integers \<open>a\<close>, \<open>b\<close>: a negative bound counts from the end,
  and both bounds are clamped into \<open>[0, len(xs)]\<close>.
\<close>

definition slice_index :: "int \<Rightarrow> nat \<Rightarrow> nat" where
  "slice_index i n = (if i < 0 then nat (max 0 (i + int n)) else min (nat i) n)"

definition py_slice :: "'a list \<Rightarrow> int \<Rightarrow> int \<Rightarrow> 'a list" where
  "py_slice xs a b =
     (let lo = slice_index a (length xs); hi = slice_index b (length xs)
      in take (hi - lo) (drop lo xs))"

text \<open>\<open>volume[z0:z1+1, y0:y1+1, x0:x1+1]\<close> on a three-dimensional array.\<close>

definition slice3 :: "ndarray \<Rightarrow> int \<Rightarrow> int \<Rightarrow> int \<Rightarrow> int \<Rightarrow> int \<Rightarrow> int \<Rightarrow> ndarray" where
  "slice3 v za zb ya yb xa xb =
     map (\<lambda>plane. map (\<lambda>row. py_slice row xa xb) (py_slice plane ya yb)) (py_slice v za zb)"

text \<open>The array has shape \<open>(Z, Y, X)\<close>.\<close>

definition has_shape :: "ndarray \<Rightarrow> nat \<Rightarrow> nat \<Rightarrow> nat \<Rightarrow> bool" where
  "has_shape v Z Y X \<longleftrightarrow>
     length v = Z \<and> list_all (\<lambda>plane. length plane = Y \<and> list_all (\<lambda>row. length row = X) plane) v"

subsection \<open>models/base\_model.py: BaseSegmenter.preprocess\_volume\<close>

type_synonym roi_coords = "int \<times> int \<times> int \<times> int \<times> int \<times> int"

definition preprocess_volume :: "heap \<Rightarrow> addr \<Rightarrow> roi_coords option \<Rightarrow> heap \<times> addr" where
  "preprocess_volume h volume roi =
     (case roi of
        Some (z0, z1, y0, y1, x0, x1) \<Rightarrow>
          alloc h (slice3 (h ! volume) z0 (z1 + 1) y0 (y1 + 1) x0 (x1 + 1))
      | None \<Rightarrow> np_copy h volume)"


section \<open>gui/main\_window.py: the application state\<close>

text \<open>
  The error kinds: those named by the specification's taxonomy and the Python exceptions
  that the handlers below can raise.
\<close>

datatype error =
    BusyError | IllegalTransitionError | PreconditionError
  | KeyError | TypeError | AttributeError | IndexError | YAMLError | OSError

datatype UIState = INITIAL | VOLUME_LOADED | ROI_DEFINED | SEGMENTING | MASK_READY | REFINING

text \<open>
  The \<open>stats\<close> dictionary delivered with a finished job.  A key may be absent: the handlers
  read some keys with \<open>stats.get(key, default)\<close> and others with \<open>stats[key]\<close>.
\<close>

record stats =
  organ_key :: "string option"
  timestamp :: "nat option"
  elapsed_time :: "real option"
  base_count :: "int option"
  final_count :: "int option"
  improvement_percent :: "real option"
  volume_ml :: "real option"

datatype op_kind = segmentation | refinement

record operation_record =
  op_timestamp :: nat
  op_type :: op_kind
  op_organ :: string
  op_stats :: stats

record params =
  hu_min :: int
  hu_max :: int
  dilation_iter :: int
  closing_size :: int
  fill_holes :: bool

text \<open>A rectangle anchored on a slice, in the order of the source: \<open>(z, y0, y1, x0, x1)\<close>.\<close>

type_synonym roi_3d = "int \<times> int \<times> int \<times> int \<times> int"

text \<open>The rectangle handed over by the selector: \<open>(x_min, x_max, y_min, y_max)\<close>.\<close>

type_synonym coords = "int \<times> int \<times> int \<times> int"

type_synonym model = nat

datatype worker =
    DataLoadWorker string
  | SegmentationWorker model roi_coords
  | MaskRefinementWorker addr params string

text \<open>The lines appended to the on-screen log (\<open>history_text\<close>) by \<open>_add_to_history\<close>.\<close>

datatype history_line =
    LoadStartLine string
  | LoadDoneLine
  | LoadErrorLine string
  | Roi1Line int coords
  | Roi2Line int coords
  | RoiResetLine
  | SegStartLine string roi_coords
  | SegDoneLine string
  | SegErrorLine string
  | RefStartLine string params
  | RefDoneLine string
  | RefErrorLine string
  | ResetBaseLine string

text \<open>The message boxes shown to the operator.\<close>

datatype dialog =
    WarnConfigNotFound
  | InfoLoaded
  | CriticalLoad string
  | WarnDrawBothRois
  | WarnGeometry string
  | CriticalModel string
  | InfoSegmentationReady string
  | CriticalError string
  | WarnSegmentFirst

subsection \<open>Configuration and start-up\<close>

text \<open>A parsed YAML document.\<close>

datatype yaml =
    YNull | YBool bool | YInt int | YStr string
  | YList "yaml list" | YMap "(string \<times> yaml) list"

text \<open>
  What \<open>open(config_path)\<close> followed by \<open>yaml.safe_load\<close> meets: no such file, a file
  that cannot be opened or decoded, a text that is not YAML, or a document.
\<close>

datatype config_file = FileNotFound | Unreadable | Malformed | Document yaml

definition get_default_config :: yaml where
  "get_default_config = YMap
     [(''application'', YMap
         [(''window_title'', YStr ''Lung Segmenter GUI''),
          (''window_size'', YList [YInt 1600, YInt 900])]),
      (''display'', YMap
         [(''default_window_center'', YInt (- 600)),
          (''default_window_width'', YInt 1500),
          (''auto_window_enabled'', YBool True),
          (''presets'', YMap
             [(''lung'', YMap [(''center'', YInt (- 600)), (''width'', YInt 1500)]),
              (''mediastinum'', YMap [(''center'', YInt 40), (''width'', YInt 400)])])]),
      (''organ_colors'', YMap
         [(''lung'', YStr ''lime''), (''liver'', YStr ''orange''),
          (''kidney'', YStr ''cyan''), (''default'', YStr ''red'')]),
      (''ui'', YMap
         [(''panels'', YMap
             [(''control_panel_width'', YInt 300), (''refine_panel_width'', YInt 350)]),
          (''modes'', YMap [(''simplified'', YBool True)]),
          (''animation'', YMap
             [(''duration_ms'', YInt 250), (''easing'', YStr ''InOutCubic'')])]),
      (''processing'', YMap
         [(''presets'', YMap
             [(''conservative'', YMap
                 [(''hu_min'', YInt (- 950)), (''hu_max'', YInt (- 350)),
                  (''dilation_iter'', YInt 1), (''closing_size'', YInt 3),
                  (''fill_holes'', YBool True)]),
              (''balanced'', YMap
                 [(''hu_min'', YInt (- 1000)), (''hu_max'', YInt (- 300)),
                  (''dilation_iter'', YInt 2), (''closing_size'', YInt 3),
                  (''fill_holes'', YBool True)]),
              (''aggressive'', YMap
                 [(''hu_min'', YInt (- 1100)), (''hu_max'', YInt (- 250)),
                  (''dilation_iter'', YInt 4), (''closing_size'', YInt 5),
                  (''fill_holes'', YBool True)])]),
          (''parameter_ranges'', YMap
             [(''hu_min'', YMap
                 [(''min'', YInt (- 1200)), (''max'', YInt (- 100)), (''default'', YInt (- 1000))]),
              (''hu_max'', YMap
                 [(''min'', YInt (- 900)), (''max'', YInt 100), (''default'', YInt (- 300))]),
              (''dilation_iter'', YMap
                 [(''min'', YInt 0), (''max'', YInt 10), (''default'', YInt 2)]),
              (''closing_size'', YMap
                 [(''min'', YInt 1), (''max'', YInt 10), (''default'', YInt 3)])])])]"

text \<open>
  \<open>_load_config\<close>: only \<open>FileNotFoundError\<close> is caught; every other exception leaves the
  function.  The second component is the list of message boxes shown.
\<close>

definition load_config :: "config_file \<Rightarrow> (error + yaml) \<times> dialog list" where
  "load_config cf =
     (case cf of
        FileNotFound \<Rightarrow> (Inr get_default_config, [WarnConfigNotFound])
      | Unreadable \<Rightarrow> (Inl OSError, [])
      | Malformed \<Rightarrow> (Inl YAMLError, [])
      | Document d \<Rightarrow> (Inr d, []))"

text \<open>\<open>v[key]\<close> for a string key.\<close>

definition subscript :: "yaml \<Rightarrow> string \<Rightarrow> error + yaml" where
  "subscript v key =
     (case v of
        YMap kvs \<Rightarrow> (case map_of kvs key of None \<Rightarrow> Inl KeyError | Some x \<Rightarrow> Inr x)
      | _ \<Rightarrow> Inl TypeError)"

fun subscripts :: "yaml \<Rightarrow> string list \<Rightarrow> error + yaml" where
  "subscripts v [] = Inr v"
| "subscripts v (key # keys) =
     (case subscript v key of Inl e \<Rightarrow> Inl e | Inr x \<Rightarrow> subscripts x keys)"

text \<open>The entries that \<open>__init__\<close> itself reads from the configuration, in order.\<close>

definition init_reads :: "yaml \<Rightarrow> error option" where
  "init_reads cfg =
     (case subscripts cfg [''display'', ''default_window_center''] of Inl e \<Rightarrow> Some e | Inr _ \<Rightarrow>
     (case subscripts cfg [''display'', ''default_window_width''] of Inl e \<Rightarrow> Some e | Inr _ \<Rightarrow>
     (case subscripts cfg [''display'', ''auto_window_enabled''] of Inl e \<Rightarrow> Some e | Inr _ \<Rightarrow>
     (case subscripts cfg [''ui'', ''modes'', ''simplified''] of Inl e \<Rightarrow> Some e | Inr _ \<Rightarrow>
        None))))"

text \<open>
  \<open>LungSegmenterGUI.__init__\<close> as far as the configuration goes.  The construction of the
  widgets and of the collaborators is the parameter \<open>rest\<close>: the exception it raises on a
  given configuration, if any.
\<close>

definition window_init ::
  "(yaml \<Rightarrow> error option) \<Rightarrow> config_file \<Rightarrow> (error + yaml) \<times> dialog list" where
  "window_init rest cf =
     (case load_config cf of
        (Inl e, ds) \<Rightarrow> (Inl e, ds)
      | (Inr cfg, ds) \<Rightarrow>
          (case init_reads cfg of
             Some e \<Rightarrow> (Inl e, ds)
           | None \<Rightarrow> (case rest cfg of Some e \<Rightarrow> (Inl e, ds) | None \<Rightarrow> (Inr cfg, ds))))"

text \<open>
  main.py, \<open>main\<close>: any exception of the constructor is printed as a fatal error and the
  function returns 1; otherwise it returns what the event loop returns.
\<close>

definition main :: "(yaml \<Rightarrow> error option) \<Rightarrow> int \<Rightarrow> config_file \<Rightarrow> int" where
  "main rest exec_code cf =
     (case fst (window_init rest cf) of Inl e \<Rightarrow> 1 | Inr w \<Rightarrow> exec_code)"

subsection \<open>The window\<close>

text \<open>The projection shown: \<open>current_view\<close> is \<open>'axial'\<close>, \<open>'coronal'\<close> or anything else.\<close>

datatype view = axial | coronal | sagittal

text \<open>
  \<open>self.masks\<close> is a dictionary whose items the repaint visits in order: \<open>masks\<close> is its
  mapping and \<open>masks_keys\<close> the order of its keys.
\<close>

record app =
  config :: yaml
  heap :: heap
  volume_shape :: "(int \<times> int \<times> int) option"
  masks :: "string \<rightharpoonup> addr"
  masks_keys :: "string list"
  base_masks :: "string \<rightharpoonup> addr"
  current_slice :: int
  current_view :: view
  roi1_3d :: "roi_3d option"
  roi2_3d :: "roi_3d option"
  ui_state :: UIState
  operation_history :: "operation_record list"
  organ_items :: "string list"
  organ_current :: string
  history_text :: "history_line list"
  dialogs :: "dialog list"
  workers :: "worker list"

text \<open>The state set up by \<open>LungSegmenterGUI.__init__\<close> when it starts from the defaults.\<close>

definition init_app :: app where
  "init_app = \<lparr> config = get_default_config, heap = [], volume_shape = None,
      masks = Map.empty, masks_keys = [], base_masks = Map.empty,
      current_slice = 0, current_view = axial, roi1_3d = None, roi2_3d = None, ui_state = INITIAL,
      operation_history = [], organ_items = [], organ_current = [],
      history_text = [], dialogs = [], workers = [] \<rparr>"

definition add_to_history :: "history_line \<Rightarrow> app \<Rightarrow> app" where
  "add_to_history line s = s\<lparr>history_text := history_text s @ [line]\<rparr>"

definition show_dialog :: "dialog \<Rightarrow> app \<Rightarrow> app" where
  "show_dialog d s = s\<lparr>dialogs := dialogs s @ [d]\<rparr>"

definition start_worker :: "worker \<Rightarrow> app \<Rightarrow> app" where
  "start_worker w s = s\<lparr>workers := workers s @ [w]\<rparr>"

subsection \<open>The collaborators of the main window\<close>

text \<open>
  Modelled from the spec: \<open>UIStateManager.transition_to\<close> (core/state\_manager.py is not
  part of the sources).  A transition from a state where the edge does not exist fails with
  \<open>IllegalTransitionError\<close> and changes nothing.  The set of edges is a parameter of every
  handler; \<open>spec_edges\<close> is the table of the specification, one pair for each of its rows
  (\<open>refine:success\<close> and \<open>refine:error\<close> are both \<open>REFINING\<close> to \<open>MASK_READY\<close>).
\<close>

type_synonym edges = "UIState \<Rightarrow> UIState \<Rightarrow> bool"

definition spec_edges :: edges where
  "spec_edges a b = List.member
     [(INITIAL, VOLUME_LOADED),
      (VOLUME_LOADED, VOLUME_LOADED),
      (VOLUME_LOADED, ROI_DEFINED),
      (ROI_DEFINED, VOLUME_LOADED),
      (ROI_DEFINED, SEGMENTING),
      (SEGMENTING, MASK_READY),
      (SEGMENTING, ROI_DEFINED),
      (MASK_READY, REFINING),
      (REFINING, MASK_READY),
      (REFINING, MASK_READY),
      (MASK_READY, VOLUME_LOADED)] (a, b)"

definition transition_to :: "edges \<Rightarrow> UIState \<Rightarrow> app \<Rightarrow> error + app" where
  "transition_to al target s =
     (if al (ui_state s) target then Inr (s\<lparr>ui_state := target\<rparr>)
      else Inl IllegalTransitionError)"

text \<open>
  Modelled from the spec: \<open>ROIManager\<close> (gui/widgets/roi\_selector.py is not part of the
  sources).  \<open>set_roi1\<close> records the first annotation unconditionally, \<open>set_roi2\<close> fails with
  \<open>PreconditionError\<close> if ROI1 is unset and records the rectangle and its slice otherwise,
  \<open>has_both\<close> is true iff both annotations are present, \<open>reset\<close> clears both.  The tuple
  layout \<open>(z, y0, y1, x0, x1)\<close> is the one the main window reads back.
\<close>

definition set_roi1 :: "int \<Rightarrow> int \<Rightarrow> int \<Rightarrow> int \<Rightarrow> int \<Rightarrow> app \<Rightarrow> app" where
  "set_roi1 z x_min x_max y_min y_max s = s\<lparr>roi1_3d := Some (z, y_min, y_max, x_min, x_max)\<rparr>"

definition set_roi2 :: "int \<Rightarrow> int \<Rightarrow> int \<Rightarrow> int \<Rightarrow> int \<Rightarrow> app \<Rightarrow> error + app" where
  "set_roi2 z x_min x_max y_min y_max s =
     (if roi1_3d s = None then Inl PreconditionError
      else Inr (s\<lparr>roi2_3d := Some (z, y_min, y_max, x_min, x_max)\<rparr>))"

definition has_both_rois :: "app \<Rightarrow> bool" where
  "has_both_rois s \<longleftrightarrow> roi1_3d s \<noteq> None \<and> roi2_3d s \<noteq> None"

definition roi_manager_reset :: "app \<Rightarrow> app" where
  "roi_manager_reset s = s\<lparr>roi1_3d := None, roi2_3d := None\<rparr>"

text \<open>
  What \<open>_segment_roi\<close> reads from its widgets and collaborators: the selected model name, the
  result of \<open>get_combined_roi_coords\<close> (the message of a \<open>ValueError\<close>, or the box) and the
  result of \<open>get_model_instance\<close> (none on failure).
\<close>

record seg_request =
  model_name :: string
  combined_roi :: "string + roi_coords"
  model_instance :: "model option"

subsection \<open>Repainting\<close>

text \<open>
  An integer index \<open>i\<close> on an axis of length \<open>n\<close>: numpy accepts \<open>-n \<le> i < n\<close>, counts a
  negative index from the end and raises \<open>IndexError\<close> otherwise.
\<close>

definition index_ok :: "int \<Rightarrow> nat \<Rightarrow> bool" where
  "index_ok i n \<longleftrightarrow> - int n \<le> i \<and> i < int n"

definition norm_index :: "int \<Rightarrow> nat \<Rightarrow> nat" where
  "norm_index i n = nat (if i < 0 then i + int n else i)"

text \<open>
  The lengths of the three axes of an array.  The nested lists do not record the later
  axes of an array whose first axis is empty; they are taken as 0.
\<close>

definition shape_of :: "ndarray \<Rightarrow> nat \<times> nat \<times> nat" where
  "shape_of m =
     (length m,
      (case m of [] \<Rightarrow> 0 | p # _ \<Rightarrow> length p),
      (case m of [] \<Rightarrow> 0 | p # _ \<Rightarrow> (case p of [] \<Rightarrow> 0 | r # _ \<Rightarrow> length r)))"

text \<open>
  \<open>_get_mask_slice\<close>: \<open>mask[i, :, :]\<close>, \<open>mask[:, i, :]\<close> or \<open>mask[:, :, i]\<close>, by the view.
\<close>

definition get_mask_slice :: "view \<Rightarrow> int \<Rightarrow> ndarray \<Rightarrow> error + int list list" where
  "get_mask_slice vw i m =
     (case shape_of m of (Z, Y, X) \<Rightarrow>
        (case vw of
           axial \<Rightarrow>
             if index_ok i Z then Inr (m ! norm_index i Z) else Inl IndexError
         | coronal \<Rightarrow>
             if index_ok i Y then Inr (map (\<lambda>plane. plane ! norm_index i Y) m)
             else Inl IndexError
         | sagittal \<Rightarrow>
             if index_ok i X then Inr (map (map (\<lambda>row. row ! norm_index i X)) m)
             else Inl IndexError))"

text \<open>\<open>_get_slice_data\<close> indexes the volume in the same way; only its shape is kept.\<close>

definition axis_length :: "view \<Rightarrow> int \<times> int \<times> int \<Rightarrow> int" where
  "axis_length vw shape =
     (case shape of (Z, Y, X) \<Rightarrow> (case vw of axial \<Rightarrow> Z | coronal \<Rightarrow> Y | sagittal \<Rightarrow> X))"

definition np_any :: "int list list \<Rightarrow> bool" where
  "np_any sl = list_ex (list_ex (\<lambda>x. x \<noteq> 0)) sl"

text \<open>
  \<open>self.config['organ_colors'].get(organ_key, self.config['organ_colors']['default'])\<close>:
  the default is looked up before \<open>get\<close> is called.
\<close>

definition organ_color :: "yaml \<Rightarrow> string \<Rightarrow> error + yaml" where
  "organ_color cfg k =
     (case subscript cfg ''organ_colors'' of
        Inl e \<Rightarrow> Inl e
      | Inr oc \<Rightarrow>
          (case oc of
             YMap kvs \<Rightarrow>
               (case map_of kvs ''default'' of
                  None \<Rightarrow> Inl KeyError
                | Some d \<Rightarrow> Inr (case map_of kvs k of None \<Rightarrow> d | Some c \<Rightarrow> c))
           | _ \<Rightarrow> Inl AttributeError))"

text \<open>
  The loop of \<open>_update_display\<close> over \<open>self.masks.items()\<close>: each mask is sliced, and the
  colour of its organ is looked up when the slice has a voxel set.
\<close>

fun draw_masks :: "app \<Rightarrow> string list \<Rightarrow> error option" where
  "draw_masks s [] = None"
| "draw_masks s (k # ks) =
     (case masks s k of
        None \<Rightarrow> draw_masks s ks
      | Some a \<Rightarrow>
          (case get_mask_slice (current_view s) (current_slice s) (heap s ! a) of
             Inl e \<Rightarrow> Some e
           | Inr sl \<Rightarrow>
               if np_any sl
               then (case organ_color (config s) k of
                       Inl e \<Rightarrow> Some e
                     | Inr c \<Rightarrow> draw_masks s ks)
               else draw_masks s ks))"

text \<open>
  \<open>_update_display\<close>: nothing without a volume; otherwise the slice of the volume, then the
  masks.  It changes no field of the window; its result is the exception it raises, if
  any.  The calls into the plotting library are taken to return.
\<close>

definition update_display :: "app \<Rightarrow> error option" where
  "update_display s =
     (case volume_shape s of
        None \<Rightarrow> None
      | Some shape \<Rightarrow>
          if index_ok (current_slice s) (nat (axis_length (current_view s) shape))
          then draw_masks s (masks_keys s)
          else Some IndexError)"

text \<open>\<open>d[k] = v\<close> on the keys of a dictionary: a new key goes to the end.\<close>

definition keys_set :: "string \<Rightarrow> string list \<Rightarrow> string list" where
  "keys_set k ks = (if k \<in> set ks then ks else ks @ [k])"

subsection \<open>Loading\<close>

text \<open>
  Every handler returns the exception it raised, if any, together with the state of the
  window at that moment: a Python exception does not undo the assignments made before it.
  The progress bar, the labels and the zoom of the canvas are not part of the state, and
  the signals that a widget emits when a handler sets its value are not followed.
\<close>

definition load_dicom :: "edges \<Rightarrow> string option \<Rightarrow> app \<Rightarrow> error option \<times> app" where
  "load_dicom al folder s =
     (case folder of
        None \<Rightarrow> (None, s)
      | Some f \<Rightarrow>
          (let s1 = add_to_history (LoadStartLine f) s in
           case transition_to al INITIAL s1 of
             Inl e \<Rightarrow> (Some e, s1)
           | Inr s2 \<Rightarrow> (None, start_worker (DataLoadWorker f) s2)))"

definition on_load_finished :: "edges \<Rightarrow> int \<times> int \<times> int \<Rightarrow> app \<Rightarrow> error option \<times> app" where
  "on_load_finished al shape s =
     (let s1 = add_to_history LoadDoneLine (s\<lparr>volume_shape := Some shape\<rparr>);
          s2 = s1\<lparr>current_slice := fst shape div 2\<rparr>
      in case update_display s2 of
           Some e \<Rightarrow> (Some e, s2)
         | None \<Rightarrow>
             (case transition_to al VOLUME_LOADED s2 of
                Inl e \<Rightarrow> (Some e, s2)
              | Inr s3 \<Rightarrow> (None, show_dialog InfoLoaded s3)))"

definition on_load_error :: "string \<Rightarrow> app \<Rightarrow> error option \<times> app" where
  "on_load_error error_msg s =
     (None, add_to_history (LoadErrorLine error_msg) (show_dialog (CriticalLoad error_msg) s))"

definition on_slice_changed :: "int \<Rightarrow> app \<Rightarrow> error option \<times> app" where
  "on_slice_changed v s =
     (let s1 = s\<lparr>current_slice := v\<rparr> in (update_display s1, s1))"

text \<open>\<open>_change_view\<close>; \<open>_get_max_slice\<close> reads the shape of the volume.\<close>

definition change_view :: "view \<Rightarrow> app \<Rightarrow> error option \<times> app" where
  "change_view vw s =
     (let s1 = s\<lparr>current_view := vw\<rparr> in
      case volume_shape s1 of
        None \<Rightarrow> (Some AttributeError, s1)
      | Some shape \<Rightarrow>
          (let max_slice = axis_length vw shape - 1;
               s2 = s1\<lparr>current_slice := min (current_slice s1) max_slice\<rparr>
           in (update_display s2, s2)))"

subsection \<open>The two rectangles\<close>

definition roi1_callback :: "coords \<Rightarrow> app \<Rightarrow> error option \<times> app" where
  "roi1_callback c s =
     (case c of (x_min, x_max, y_min, y_max) \<Rightarrow>
        (let s1 = add_to_history (Roi1Line (current_slice s) c)
                    (set_roi1 (current_slice s) x_min x_max y_min y_max s)
         in (update_display s1, s1)))"

text \<open>
  Lines 825 to 835 of \<open>_roi2_callback\<close>: the raw rectangle is given the width and height of
  ROI1 around its own centre.  \<open>//\<close> is floor division, as \<open>div\<close> on \<open>int\<close>.
\<close>

definition adjust_roi2 :: "roi_3d \<Rightarrow> int \<times> int \<times> int \<Rightarrow> coords \<Rightarrow> coords" where
  "adjust_roi2 roi1 shape c =
     (case c of (x_min, x_max, y_min, y_max) \<Rightarrow>
     (case roi1 of (z, roi1_y0, roi1_y1, roi1_x0, roi1_x1) \<Rightarrow>
     (case shape of (Z, Y, X) \<Rightarrow>
        (let roi1_width = roi1_x1 - roi1_x0;
             roi1_height = roi1_y1 - roi1_y0;
             center_x = (x_min + x_max) div 2;
             center_y = (y_min + y_max) div 2;
             x_min' = max 0 (center_x - roi1_width div 2);
             x_max' = min (X - 1) (x_min' + roi1_width);
             y_min' = max 0 (center_y - roi1_height div 2);
             y_max' = min (Y - 1) (y_min' + roi1_height)
         in (x_min', x_max', y_min', y_max')))))"

definition roi2_callback :: "edges \<Rightarrow> coords \<Rightarrow> app \<Rightarrow> error option \<times> app" where
  "roi2_callback al c s =
     (case roi1_3d s of
        None \<Rightarrow> (Some TypeError, s)
      | Some roi1 \<Rightarrow>
         (case volume_shape s of
            None \<Rightarrow> (Some AttributeError, s)
          | Some shape \<Rightarrow>
             (case adjust_roi2 roi1 shape c of (x_min, x_max, y_min, y_max) \<Rightarrow>
               (case set_roi2 (current_slice s) x_min x_max y_min y_max s of
                  Inl e \<Rightarrow> (Some e, s)
                | Inr s1 \<Rightarrow>
                   (let s2 = add_to_history
                               (Roi2Line (current_slice s) (x_min, x_max, y_min, y_max)) s1
                    in (case transition_to al ROI_DEFINED s2 of
                          Inl e \<Rightarrow> (Some e, s2)
                        | Inr s3 \<Rightarrow> (update_display s3, s3)))))))"

definition reset_roi :: "edges \<Rightarrow> app \<Rightarrow> error option \<times> app" where
  "reset_roi al s =
     (let s1 = roi_manager_reset s in
      case transition_to al VOLUME_LOADED s1 of
        Inl e \<Rightarrow> (Some e, s1)
      | Inr s2 \<Rightarrow>
          (case update_display s2 of
             Some e \<Rightarrow> (Some e, s2)
           | None \<Rightarrow> (None, add_to_history RoiResetLine s2)))"

subsection \<open>Segmentation\<close>

definition segment_roi :: "edges \<Rightarrow> seg_request \<Rightarrow> app \<Rightarrow> error option \<times> app" where
  "segment_roi al req s =
     (if \<not> has_both_rois s then (None, show_dialog WarnDrawBothRois s)
      else case volume_shape s of
        None \<Rightarrow> (Some AttributeError, s)
      | Some shape \<Rightarrow>
         (case combined_roi req of
            Inl msg \<Rightarrow> (None, show_dialog (WarnGeometry msg) s)
          | Inr roi \<Rightarrow>
             (case model_instance req of
                None \<Rightarrow> (None, show_dialog (CriticalModel (model_name req)) s)
              | Some m \<Rightarrow>
                 (let s1 = add_to_history (SegStartLine (model_name req) roi) s in
                  case transition_to al SEGMENTING s1 of
                    Inl e \<Rightarrow> (Some e, s1)
                  | Inr s2 \<Rightarrow> (None, start_worker (SegmentationWorker m roi) s2)))))"

text \<open>\<open>stats.get('organ_key', 'unknown')\<close>\<close>

definition seg_organ :: "stats \<Rightarrow> string" where
  "seg_organ st = (case organ_key st of Some k \<Rightarrow> k | None \<Rightarrow> ''unknown'')"

text \<open>\<open>stats.get('timestamp', datetime.now())\<close>; the clock is an input.\<close>

definition stamp :: "nat \<Rightarrow> stats \<Rightarrow> nat" where
  "stamp now st = (case timestamp st of Some t \<Rightarrow> t | None \<Rightarrow> now)"

text \<open>
  What \<open>get_mask_statistics(mask, self.spacing)\<close> does is an input of the handler
  (core/data\_io.py is not part of the sources): the exception it raises, or the voxel count
  and the volume it returns.
\<close>

type_synonym mask_statistics = "error + int \<times> real"

definition on_segmentation_finished ::
  "edges \<Rightarrow> nat \<Rightarrow> addr \<Rightarrow> stats \<Rightarrow> mask_statistics \<Rightarrow> app \<Rightarrow> error option \<times> app" where
  "on_segmentation_finished al now msk st mask_stats s =
     (let k = seg_organ st;
          (h1, b) = np_copy (heap s) msk;
          (h2, c) = np_copy h1 msk;
          s1 = s\<lparr>heap := h2,
                 base_masks := (base_masks s)(k \<mapsto> b),
                 masks := (masks s)(k \<mapsto> c),
                 masks_keys := keys_set k (masks_keys s)\<rparr>;
          s2 = s1\<lparr>organ_items :=
                     (if k \<in> set (organ_items s1) then organ_items s1 else organ_items s1 @ [k]),
                   organ_current := k\<rparr>;
          s3 = s2\<lparr>operation_history := operation_history s2 @
                     [\<lparr>op_timestamp = stamp now st, op_type = segmentation,
                       op_organ = k, op_stats = st\<rparr>]\<rparr>
      in case mask_stats of
           Inl e \<Rightarrow> (Some e, s3)
         | Inr ms \<Rightarrow>
             (let s4 = add_to_history (SegDoneLine k) s3 in
              case transition_to al MASK_READY s4 of
                Inl e \<Rightarrow> (Some e, s4)
              | Inr s5 \<Rightarrow>
                  (case update_display s5 of
                     Some e \<Rightarrow> (Some e, s5)
                   | None \<Rightarrow> (None, show_dialog (InfoSegmentationReady k) s5))))"

definition on_segmentation_error :: "edges \<Rightarrow> string \<Rightarrow> app \<Rightarrow> error option \<times> app" where
  "on_segmentation_error al error_msg s =
     (case transition_to al ROI_DEFINED s of
        Inl e \<Rightarrow> (Some e, s)
      | Inr s1 \<Rightarrow>
          (None, add_to_history (SegErrorLine error_msg) (show_dialog (CriticalError error_msg) s1)))"

subsection \<open>Refinement\<close>

definition apply_mask_refinement :: "edges \<Rightarrow> params \<Rightarrow> app \<Rightarrow> error option \<times> app" where
  "apply_mask_refinement al ps s =
     (let k = organ_current s in
      case base_masks s k of
        None \<Rightarrow> (None, show_dialog WarnSegmentFirst s)
      | Some b \<Rightarrow>
          (let s1 = add_to_history (RefStartLine k ps) s in
           case transition_to al REFINING s1 of
             Inl e \<Rightarrow> (Some e, s1)
           | Inr s2 \<Rightarrow> (None, start_worker (MaskRefinementWorker b ps k) s2)))"

text \<open>\<open>stats.get('organ_key', self.organ_combo.currentText())\<close>\<close>

definition ref_organ :: "stats \<Rightarrow> app \<Rightarrow> string" where
  "ref_organ st s = (case organ_key st of Some k \<Rightarrow> k | None \<Rightarrow> organ_current s)"

definition on_refinement_finished ::
  "edges \<Rightarrow> nat \<Rightarrow> addr \<Rightarrow> stats \<Rightarrow> app \<Rightarrow> error option \<times> app" where
  "on_refinement_finished al now msk st s =
     (let k = ref_organ st s;
          s1 = s\<lparr>masks := (masks s)(k \<mapsto> msk), masks_keys := keys_set k (masks_keys s)\<rparr>;
          s2 = s1\<lparr>operation_history := operation_history s1 @
                     [\<lparr>op_timestamp = stamp now st, op_type = refinement,
                       op_organ = k, op_stats = st\<rparr>]\<rparr>
      in if base_count st = None \<or> final_count st = None \<or> volume_ml st = None
         then (Some KeyError, s2)
         else (let s3 = add_to_history (RefDoneLine k) s2 in
               case transition_to al MASK_READY s3 of
                 Inl e \<Rightarrow> (Some e, s3)
               | Inr s4 \<Rightarrow> (update_display s4, s4)))"

definition on_refinement_error :: "edges \<Rightarrow> string \<Rightarrow> app \<Rightarrow> error option \<times> app" where
  "on_refinement_error al error_msg s =
     (case transition_to al MASK_READY s of
        Inl e \<Rightarrow> (Some e, s)
      | Inr s1 \<Rightarrow>
          (None, add_to_history (RefErrorLine error_msg) (show_dialog (CriticalError error_msg) s1)))"

definition reset_to_base_mask :: "app \<Rightarrow> error option \<times> app" where
  "reset_to_base_mask s =
     (let k = organ_current s in
      case base_masks s k of
        None \<Rightarrow> (None, s)
      | Some b \<Rightarrow>
          (let (h1, c) = np_copy (heap s) b;
               s1 = add_to_history (ResetBaseLine k)
                      (s\<lparr>heap := h1, masks := (masks s)(k \<mapsto> c),
                         masks_keys := keys_set k (masks_keys s)\<rparr>)
           in (update_display s1, s1)))"

subsection \<open>Events\<close>

text \<open>
  Everything that reaches the window: an operator action or the terminal signal of a
  worker.  \<open>step\<close> runs the handler connected to it.
\<close>

datatype event =
    LoadDicom "string option"
  | LoadFinished "int \<times> int \<times> int"
  | LoadError string
  | SliceChanged int
  | ChangeView view
  | Roi1Drawn coords
  | Roi2Drawn coords
  | ResetRoi
  | SegmentRoi seg_request
  | SegmentationFinished addr stats mask_statistics
  | SegmentationError string
  | ApplyMaskRefinement params
  | RefinementFinished addr stats
  | RefinementError string
  | ResetToBaseMask

fun step :: "edges \<Rightarrow> nat \<Rightarrow> event \<Rightarrow> app \<Rightarrow> error option \<times> app" where
  "step al now (LoadDicom folder) s = load_dicom al folder s"
| "step al now (LoadFinished shape) s = on_load_finished al shape s"
| "step al now (LoadError msg) s = on_load_error msg s"
| "step al now (SliceChanged v) s = on_slice_changed v s"
| "step al now (ChangeView vw) s = change_view vw s"
| "step al now (Roi1Drawn c) s = roi1_callback c s"
| "step al now (Roi2Drawn c) s = roi2_callback al c s"
| "step al now ResetRoi s = reset_roi al s"
| "step al now (SegmentRoi req) s = segment_roi al req s"
| "step al now (SegmentationFinished msk st ms) s =
     on_segmentation_finished al now msk st ms s"
| "step al now (SegmentationError msg) s = on_segmentation_error al msg s"
| "step al now (ApplyMaskRefinement ps) s = apply_mask_refinement al ps s"
| "step al now (RefinementFinished msk st) s = on_refinement_finished al now msk st s"
| "step al now (RefinementError msg) s = on_refinement_error al msg s"
| "step al now ResetToBaseMask s = reset_to_base_mask s"

text \<open>A run of refinement completions, each with its own result array and statistics.\<close>

fun run_refinements :: "edges \<Rightarrow> nat \<Rightarrow> (addr \<times> stats) list \<Rightarrow> app \<Rightarrow> app" where
  "run_refinements al now [] s = s"
| "run_refinements al now ((msk, st) # rs) s =
     run_refinements al now rs (snd (on_refinement_finished al now msk st s))"

text \<open>A sequence of events, each handled in the state its predecessor left.\<close>

fun run :: "edges \<Rightarrow> nat \<Rightarrow> event list \<Rightarrow> app \<Rightarrow> app" where
  "run al now [] s = s"
| "run al now (e # es) s = run al now es (snd (step al now e s))"

subsection \<open>The rectangle of ROI2 in the words of the specification\<close>

text \<open>
  The specification's reading of the adjustment, for comparison with \<open>adjust_roi2\<close>: the
  raw rectangle is given ROI1's width and height around its centroid, and then each edge
  is clipped into \<open>[0, dim - 1]\<close>.
\<close>

definition clip :: "int \<Rightarrow> int \<Rightarrow> int" where
  "clip n v = max 0 (min (n - 1) v)"

definition recenter_then_clip :: "roi_3d \<Rightarrow> int \<times> int \<times> int \<Rightarrow> coords \<Rightarrow> coords" where
  "recenter_then_clip roi1 shape c =
     (case c of (x_min, x_max, y_min, y_max) \<Rightarrow>
     (case roi1 of (z, roi1_y0, roi1_y1, roi1_x0, roi1_x1) \<Rightarrow>
     (case shape of (Z, Y, X) \<Rightarrow>
        (let w = roi1_x1 - roi1_x0;
             h = roi1_y1 - roi1_y0;
             xa = (x_min + x_max) div 2 - w div 2;
             ya = (y_min + y_max) div 2 - h div 2
         in (clip X xa, clip X (xa + w), clip Y ya, clip Y (ya + h))))))"

subsection \<open>Concrete inputs\<close>

definition vol0 :: ndarray where
  "vol0 = [[[1, 2, 3], [4, 5, 6]], [[7, 8, 9], [10, 11, 12]]]"

text \<open>A mask of shape (100, 2, 2) with three voxels set on every slice.\<close>

definition mask0 :: ndarray where
  "mask0 = replicate 100 [[0, 1], [1, 1]]"

text \<open>
  A volume of shape (100, 512, 512) is loaded and ROI1 is drawn on slice 40 with
  x = [100, 400], y = [100, 400]; the operator has moved to slice 60.
\<close>

definition roi1_events :: "event list" where
  "roi1_events =
     [LoadFinished (100, 512, 512), SliceChanged 40, Roi1Drawn (100, 400, 100, 400),
      SliceChanged 60]"

definition roi1_state :: app where
  "roi1_state = run spec_edges 0 roi1_events init_app"

definition lung_request :: seg_request where
  "lung_request = \<lparr> model_name = ''lung'',
       combined_roi = Inr (40, 60, 150, 450, 150, 450), model_instance = Some 0 \<rparr>"

definition some_params :: params where
  "some_params = \<lparr> hu_min = - 1000, hu_max = - 300, dilation_iter = 2, closing_size = 3,
       fill_holes = True \<rparr>"

text \<open>ROI2 is drawn around (300, 300) and a segmentation is dispatched.\<close>

definition segmenting_state :: app where
  "segmenting_state =
     run spec_edges 0 [Roi2Drawn (200, 400, 200, 400), SegmentRoi lung_request] roi1_state"

text \<open>The worker has produced its result array, at address 0.\<close>

definition result_state :: app where
  "result_state = segmenting_state\<lparr>heap := [mask0]\<rparr>"

definition lung_stats :: stats where
  "lung_stats = \<lparr> organ_key = Some ''lung'', timestamp = Some 7, elapsed_time = Some 2,
       base_count = None, final_count = None, improvement_percent = None, volume_ml = None \<rparr>"

definition refined_stats :: stats where
  "refined_stats = \<lparr> organ_key = Some ''lung'', timestamp = Some 9, elapsed_time = None,
       base_count = Some 3, final_count = Some 1, improvement_percent = Some (- 66),
       volume_ml = Some 1 \<rparr>"

text \<open>The segmentation has finished; then a refinement of the lung mask is dispatched.\<close>

definition mask_ready_state :: app where
  "mask_ready_state =
     run spec_edges 0 [SegmentationFinished 0 lung_stats (Inr (300, 3 / 10))] result_state"

definition refining_state :: app where
  "refining_state = run spec_edges 0 [ApplyMaskRefinement some_params] mask_ready_state"

text \<open>Statistics of a refinement whose organ is not the one selected in the window.\<close>

definition liver_stats :: stats where
  "liver_stats = \<lparr> organ_key = Some ''liver'', timestamp = Some 11, elapsed_time = None,
       base_count = Some 3, final_count = Some 1, improvement_percent = Some (- 66),
       volume_ml = Some 1 \<rparr>"

text \<open>
  While the segmentation runs, a rectangle is drawn with the selector of ROI2 and the
  segmentation is dispatched again.
\<close>

definition redispatched_state :: app where
  "redispatched_state =
     run spec_edges 0 [Roi2Drawn (200, 400, 200, 400), SegmentRoi lung_request] segmenting_state"

section \<open>Properties\<close>

lemmas handler_defs = load_dicom_def on_load_finished_def on_load_error_def on_slice_changed_def
  change_view_def roi1_callback_def roi2_callback_def reset_roi_def segment_roi_def
  on_segmentation_error_def apply_mask_refinement_def on_refinement_finished_def
  on_refinement_error_def reset_to_base_mask_def
  add_to_history_def show_dialog_def start_worker_def transition_to_def
  set_roi1_def set_roi2_def has_both_rois_def roi_manager_reset_def

subsection \<open>What the repaint reads\<close>

lemma draw_masks_cong:
  assumes "masks s' = masks s" "heap s' = heap s" "config s' = config s"
    "current_view s' = current_view s" "current_slice s' = current_slice s"
  shows "draw_masks s' ks = draw_masks s ks"
  by (induction ks) (simp_all add: assms split: option.splits sum.splits)

lemma update_display_cong:
  assumes "masks s' = masks s" "masks_keys s' = masks_keys s" "heap s' = heap s"
    "config s' = config s" "current_view s' = current_view s"
    "current_slice s' = current_slice s" "volume_shape s' = volume_shape s"
  shows "update_display s' = update_display s"
  using draw_masks_cong [of s' s "masks_keys s", OF assms(1,3,4,5,6)]
  by (simp add: update_display_def assms split: option.splits)

lemma update_display_other_fields:
  "update_display (history_text_update f1 s) = update_display s"
  "update_display (dialogs_update f2 s) = update_display s"
  "update_display (workers_update f3 s) = update_display s"
  "update_display (ui_state_update f4 s) = update_display s"
  "update_display (roi1_3d_update f5 s) = update_display s"
  "update_display (roi2_3d_update f6 s) = update_display s"
  "update_display (operation_history_update f7 s) = update_display s"
  "update_display (organ_items_update f8 s) = update_display s"
  "update_display (organ_current_update f9 s) = update_display s"
  "update_display (base_masks_update f10 s) = update_display s"
  by (rule update_display_cong; simp)+

lemma update_display_no_masks:
  "masks_keys s = [] \<Longrightarrow> volume_shape s = Some shape \<Longrightarrow>
   index_ok (current_slice s) (nat (axis_length (current_view s) shape)) \<Longrightarrow>
   update_display s = None"
  by (simp add: update_display_def)

subsection \<open>The concrete states\<close>

lemma roi1_state_eq:
  "roi1_state = init_app\<lparr>volume_shape := Some (100, 512, 512), current_slice := 60,
      roi1_3d := Some (40, 100, 400, 100, 400), ui_state := VOLUME_LOADED,
      history_text := [LoadDoneLine, Roi1Line 40 (100, 400, 100, 400)],
      dialogs := [InfoLoaded]\<rparr>"
  by (simp add: roi1_state_def roi1_events_def init_app_def handler_defs spec_edges_def
        update_display_def index_ok_def axis_length_def)

lemma roi1_state_fields:
  "roi1_3d roi1_state = Some (40, 100, 400, 100, 400)"
  "volume_shape roi1_state = Some (100, 512, 512)"
  "current_slice roi1_state = 60"
  "ui_state roi1_state = VOLUME_LOADED"
  "masks_keys roi1_state = []"
  "current_view roi1_state = axial"
  by (simp_all add: roi1_state_eq init_app_def)

lemma update_display_roi1_state: "update_display roi1_state = None"
  by (rule update_display_no_masks [where shape = "(100, 512, 512)"])
     (simp_all add: roi1_state_fields index_ok_def axis_length_def)

subsection \<open>Slicing\<close>

lemma py_slice_len:
  "0 \<le> a \<Longrightarrow> a \<le> b \<Longrightarrow> b < int (length xs) \<Longrightarrow>
   length (py_slice xs a (b + 1)) = nat (b - a + 1)"
  by (auto simp: py_slice_def slice_index_def Let_def)

lemma py_slice_nth:
  "0 \<le> a \<Longrightarrow> a \<le> b \<Longrightarrow> b < int (length xs) \<Longrightarrow> i < nat (b - a + 1) \<Longrightarrow>
   py_slice xs a (b + 1) ! i = xs ! (nat a + i)"
  by (auto simp: py_slice_def slice_index_def Let_def)

lemma py_slice_set: "x \<in> set (py_slice xs a b) \<Longrightarrow> x \<in> set xs"
  by (auto simp: py_slice_def Let_def dest: in_set_takeD in_set_dropD)

lemma has_shape_plane:
  "has_shape v Z Y X \<Longrightarrow> p \<in> set v \<Longrightarrow> length p = Y \<and> (\<forall>r\<in>set p. length r = X)"
  by (auto simp: has_shape_def list_all_iff)

lemma slice3_shape:
  assumes sh: "has_shape v Z Y X"
    and z: "0 \<le> z0" "z0 \<le> z1" "z1 < int Z"
    and y: "0 \<le> y0" "y0 \<le> y1" "y1 < int Y"
    and x: "0 \<le> x0" "x0 \<le> x1" "x1 < int X"
  shows "has_shape (slice3 v z0 (z1 + 1) y0 (y1 + 1) x0 (x1 + 1))
           (nat (z1 - z0 + 1)) (nat (y1 - y0 + 1)) (nat (x1 - x0 + 1))"
proof -
  have lenv: "length v = Z" using sh by (simp add: has_shape_def)
  have len: "length (slice3 v z0 (z1 + 1) y0 (y1 + 1) x0 (x1 + 1)) = nat (z1 - z0 + 1)"
    using z lenv by (simp add: slice3_def py_slice_len)
  have planes: "length q = nat (y1 - y0 + 1) \<and> (\<forall>r\<in>set q. length r = nat (x1 - x0 + 1))"
    if q: "q \<in> set (slice3 v z0 (z1 + 1) y0 (y1 + 1) x0 (x1 + 1))" for q
  proof -
    from q obtain p where p: "p \<in> set (py_slice v z0 (z1 + 1))"
      and qp: "q = map (\<lambda>row. py_slice row x0 (x1 + 1)) (py_slice p y0 (y1 + 1))"
      by (auto simp: slice3_def)
    from p have "p \<in> set v" by (rule py_slice_set)
    with sh have lp: "length p = Y" and rows: "\<forall>r\<in>set p. length r = X"
      using has_shape_plane by blast+
    have "length q = nat (y1 - y0 + 1)" using qp y lp by (simp add: py_slice_len)
    moreover have "length r = nat (x1 - x0 + 1)" if "r \<in> set q" for r
    proof -
      from that qp obtain r0 where r0: "r0 \<in> set (py_slice p y0 (y1 + 1))"
        and r: "r = py_slice r0 x0 (x1 + 1)" by auto
      from r0 have "r0 \<in> set p" by (rule py_slice_set)
      with rows have "length r0 = X" by simp
      with r x show ?thesis by (simp add: py_slice_len)
    qed
    ultimately show ?thesis by blast
  qed
  show ?thesis using len planes by (auto simp: has_shape_def list_all_iff)
qed

lemma slice3_nth:
  assumes sh: "has_shape v Z Y X"
    and z: "0 \<le> z0" "z0 \<le> z1" "z1 < int Z"
    and y: "0 \<le> y0" "y0 \<le> y1" "y1 < int Y"
    and x: "0 \<le> x0" "x0 \<le> x1" "x1 < int X"
    and i: "i < nat (z1 - z0 + 1)" and j: "j < nat (y1 - y0 + 1)" and l: "l < nat (x1 - x0 + 1)"
  shows "slice3 v z0 (z1 + 1) y0 (y1 + 1) x0 (x1 + 1) ! i ! j ! l
           = v ! (nat z0 + i) ! (nat y0 + j) ! (nat x0 + l)"
proof -
  have lenv: "length v = Z" using sh by (simp add: has_shape_def)
  have iv: "nat z0 + i < length v" using z i lenv by linarith
  let ?p = "v ! (nat z0 + i)"
  have pin: "?p \<in> set v" using iv by simp
  with sh have lp: "length ?p = Y" and rows: "\<forall>r\<in>set ?p. length r = X"
    using has_shape_plane by blast+
  have jp: "nat y0 + j < length ?p" using y j lp by linarith
  let ?r = "?p ! (nat y0 + j)"
  have "?r \<in> set ?p" using jp by simp
  with rows have lr: "length ?r = X" by simp
  have zi: "py_slice v z0 (z1 + 1) ! i = ?p" using z lenv i by (simp add: py_slice_nth)
  have yj: "py_slice ?p y0 (y1 + 1) ! j = ?r" using y lp j by (simp add: py_slice_nth)
  have xl: "py_slice ?r x0 (x1 + 1) ! l = ?r ! (nat x0 + l)"
    using x lr l by (simp add: py_slice_nth)
  have li: "i < length (py_slice v z0 (z1 + 1))" using z lenv i by (simp add: py_slice_len)
  have lj: "j < length (py_slice ?p y0 (y1 + 1))" using y lp j by (simp add: py_slice_len)
  show ?thesis using li lj zi yj xl by (simp add: slice3_def)
qed

text \<open>
  C10.  For a volume of shape (Z, Y, X) and a box with \<open>0 \<le> z0 \<le> z1 < Z\<close>,
  \<open>0 \<le> y0 \<le> y1 < Y\<close>, \<open>0 \<le> x0 \<le> x1 < X\<close>, \<open>preprocess_volume\<close> returns a new array object
  of shape \<open>(z1-z0+1, y1-y0+1, x1-x0+1)\<close> whose voxel \<open>(i, j, l)\<close> is the voxel
  \<open>(z0+i, y0+j, x0+l)\<close> of the volume: the bounds are inclusive on every axis.  Without a
  box it returns a new array object with the contents of the whole volume.  In both cases
  every array that existed before, the volume among them, is left as it was.
\<close>

theorem preprocess_volume_subbox:
  "(volume < length h \<and> has_shape (h ! volume) Z Y X
      \<and> 0 \<le> z0 \<and> z0 \<le> z1 \<and> z1 < int Z
      \<and> 0 \<le> y0 \<and> y0 \<le> y1 \<and> y1 < int Y
      \<and> 0 \<le> x0 \<and> x0 \<le> x1 \<and> x1 < int X \<longrightarrow>
     (case preprocess_volume h volume (Some (z0, z1, y0, y1, x0, x1)) of (h', r) \<Rightarrow>
        r = length h \<and> length h' = Suc (length h) \<and> take (length h) h' = h
        \<and> h' ! volume = h ! volume
        \<and> has_shape (h' ! r) (nat (z1 - z0 + 1)) (nat (y1 - y0 + 1)) (nat (x1 - x0 + 1))
        \<and> (\<forall>i < nat (z1 - z0 + 1). \<forall>j < nat (y1 - y0 + 1). \<forall>l < nat (x1 - x0 + 1).
              h' ! r ! i ! j ! l = h ! volume ! (nat z0 + i) ! (nat y0 + j) ! (nat x0 + l))))
   \<and> (volume < length h \<longrightarrow>
       (case preprocess_volume h volume None of (h', r) \<Rightarrow>
          r = length h \<and> length h' = Suc (length h) \<and> take (length h) h' = h
          \<and> h' ! volume = h ! volume \<and> h' ! r = h ! volume))"
proof (intro conjI impI)
  assume a: "volume < length h \<and> has_shape (h ! volume) Z Y X
      \<and> 0 \<le> z0 \<and> z0 \<le> z1 \<and> z1 < int Z
      \<and> 0 \<le> y0 \<and> y0 \<le> y1 \<and> y1 < int Y
      \<and> 0 \<le> x0 \<and> x0 \<le> x1 \<and> x1 < int X"
  let ?s = "slice3 (h ! volume) z0 (z1 + 1) y0 (y1 + 1) x0 (x1 + 1)"
  have sh: "has_shape ?s (nat (z1 - z0 + 1)) (nat (y1 - y0 + 1)) (nat (x1 - x0 + 1))"
    using a slice3_shape by blast
  have el: "\<forall>i < nat (z1 - z0 + 1). \<forall>j < nat (y1 - y0 + 1). \<forall>l < nat (x1 - x0 + 1).
              ?s ! i ! j ! l = h ! volume ! (nat z0 + i) ! (nat y0 + j) ! (nat x0 + l)"
    using a slice3_nth by blast
  have v: "volume < length h" using a by simp
  show "case preprocess_volume h volume (Some (z0, z1, y0, y1, x0, x1)) of (h', r) \<Rightarrow>
        r = length h \<and> length h' = Suc (length h) \<and> take (length h) h' = h
        \<and> h' ! volume = h ! volume
        \<and> has_shape (h' ! r) (nat (z1 - z0 + 1)) (nat (y1 - y0 + 1)) (nat (x1 - x0 + 1))
        \<and> (\<forall>i < nat (z1 - z0 + 1). \<forall>j < nat (y1 - y0 + 1). \<forall>l < nat (x1 - x0 + 1).
              h' ! r ! i ! j ! l = h ! volume ! (nat z0 + i) ! (nat y0 + j) ! (nat x0 + l))"
    using sh el v by (simp add: preprocess_volume_def alloc_def nth_append)
next
  assume "volume < length h"
  then show "case preprocess_volume h volume None of (h', r) \<Rightarrow>
          r = length h \<and> length h' = Suc (length h) \<and> take (length h) h' = h
          \<and> h' ! volume = h ! volume \<and> h' ! r = h ! volume"
    by (simp add: preprocess_volume_def np_copy_def alloc_def nth_append)
qed

theorem preprocess_volume_subbox_witness:
  "(0::nat) < length [vol0] \<and> has_shape ([vol0] ! 0) 2 2 3
   \<and> preprocess_volume [vol0] 0 (Some (1, 1, 0, 1, 1, 2)) = ([vol0, [[[8, 9], [11, 12]]]], 1)
   \<and> preprocess_volume [vol0] 0 None = ([vol0, vol0], 1)"
  using preprocess_volume_subbox [of 0 "[vol0]" 2 2 3 1 1 0 1 1 2]
  by (simp add: preprocess_volume_def np_copy_def alloc_def slice3_def py_slice_def
        slice_index_def vol0_def has_shape_def)

subsection \<open>The rectangle of ROI2\<close>

lemma adjust_roi2_eq:
  "adjust_roi2 (z, roi1_y0, roi1_y1, roi1_x0, roi1_x1) (Z, Y, X) (x_min, x_max, y_min, y_max) =
     (max 0 ((x_min + x_max) div 2 - (roi1_x1 - roi1_x0) div 2),
      min (X - 1) (max 0 ((x_min + x_max) div 2 - (roi1_x1 - roi1_x0) div 2) + (roi1_x1 - roi1_x0)),
      max 0 ((y_min + y_max) div 2 - (roi1_y1 - roi1_y0) div 2),
      min (Y - 1) (max 0 ((y_min + y_max) div 2 - (roi1_y1 - roi1_y0) div 2) + (roi1_y1 - roi1_y0)))"
  by (simp add: adjust_roi2_def Let_def)

lemma axis_in_bounds:
  fixes c w n :: int
  assumes "0 \<le> c" "c \<le> n - 1" "0 \<le> w"
  shows "0 \<le> max 0 (c - w div 2)
         \<and> max 0 (c - w div 2) \<le> min (n - 1) (max 0 (c - w div 2) + w)
         \<and> min (n - 1) (max 0 (c - w div 2) + w) \<le> n - 1"
proof -
  have "0 \<le> w div 2" using assms(3) by simp
  then show ?thesis using assms by auto
qed

lemma roi2_callback_recorded:
  "roi1_3d s = Some roi1 \<Longrightarrow> volume_shape s = Some shape \<Longrightarrow>
   adjust_roi2 roi1 shape c = (xa, xb, ya, yb) \<Longrightarrow>
   roi2_3d (snd (roi2_callback al c s)) = Some (current_slice s, ya, yb, xa, xb)
   \<and> (al (ui_state s) ROI_DEFINED \<longrightarrow> fst (roi2_callback al c s) = update_display s)"
  by (simp add: roi2_callback_def set_roi2_def add_to_history_def transition_to_def Let_def
        update_display_other_fields)

text \<open>
  C9.  When the centroid of the raw rectangle lies within the slice on both axes and ROI1
  is a proper rectangle (\<open>roi1_x0 \<le> roi1_x1\<close>, \<open>roi1_y0 \<le> roi1_y1\<close>; that it fits into the
  volume is not even needed), the adjusted rectangle satisfies
  \<open>0 \<le> x_min \<le> x_max \<le> X - 1\<close> and \<open>0 \<le> y_min \<le> y_max \<le> Y - 1\<close>.  Without the condition
  on the centroid this fails: on a (100, 512, 512) volume with ROI1 x = [100, 400], a raw
  rectangle x = [700, 900] has its centroid at 800, beyond 511, and the callback records
  x = [650, 511], an inverted rectangle, and raises nothing.
\<close>

theorem adjusted_roi2_within_volume:
  "(0 \<le> (x_min + x_max) div 2 \<and> (x_min + x_max) div 2 \<le> X - 1
    \<and> 0 \<le> (y_min + y_max) div 2 \<and> (y_min + y_max) div 2 \<le> Y - 1
    \<and> 0 \<le> roi1_x1 - roi1_x0 \<and> 0 \<le> roi1_y1 - roi1_y0 \<longrightarrow>
    (case adjust_roi2 (z, roi1_y0, roi1_y1, roi1_x0, roi1_x1) (Z, Y, X) (x_min, x_max, y_min, y_max)
     of (xa, xb, ya, yb) \<Rightarrow>
       0 \<le> xa \<and> xa \<le> xb \<and> xb \<le> X - 1 \<and> 0 \<le> ya \<and> ya \<le> yb \<and> yb \<le> Y - 1))
   \<and> (case roi2_callback spec_edges (700, 900, 200, 400) roi1_state of (r, s') \<Rightarrow>
         r = None \<and> roi2_3d s' = Some (60, 150, 450, 650, 511))"
proof (intro conjI impI)
  assume a: "0 \<le> (x_min + x_max) div 2 \<and> (x_min + x_max) div 2 \<le> X - 1
    \<and> 0 \<le> (y_min + y_max) div 2 \<and> (y_min + y_max) div 2 \<le> Y - 1
    \<and> 0 \<le> roi1_x1 - roi1_x0 \<and> 0 \<le> roi1_y1 - roi1_y0"
  define xa where "xa = max 0 ((x_min + x_max) div 2 - (roi1_x1 - roi1_x0) div 2)"
  define xb where "xb = min (X - 1) (xa + (roi1_x1 - roi1_x0))"
  define ya where "ya = max 0 ((y_min + y_max) div 2 - (roi1_y1 - roi1_y0) div 2)"
  define yb where "yb = min (Y - 1) (ya + (roi1_y1 - roi1_y0))"
  have eq: "adjust_roi2 (z, roi1_y0, roi1_y1, roi1_x0, roi1_x1) (Z, Y, X)
              (x_min, x_max, y_min, y_max) = (xa, xb, ya, yb)"
    by (simp add: adjust_roi2_eq xa_def xb_def ya_def yb_def)
  have x: "0 \<le> xa \<and> xa \<le> xb \<and> xb \<le> X - 1"
    unfolding xb_def xa_def using a by (intro axis_in_bounds) simp_all
  have y: "0 \<le> ya \<and> ya \<le> yb \<and> yb \<le> Y - 1"
    unfolding yb_def ya_def using a by (intro axis_in_bounds) simp_all
  show "case adjust_roi2 (z, roi1_y0, roi1_y1, roi1_x0, roi1_x1) (Z, Y, X)
               (x_min, x_max, y_min, y_max)
        of (xa, xb, ya, yb) \<Rightarrow>
          0 \<le> xa \<and> xa \<le> xb \<and> xb \<le> X - 1 \<and> 0 \<le> ya \<and> ya \<le> yb \<and> yb \<le> Y - 1"
    unfolding eq using x y by simp
next
  have adj: "adjust_roi2 (40, 100, 400, 100, 400) (100, 512, 512) (700, 900, 200, 400)
               = (650, 511, 150, 450)"
    by (simp add: adjust_roi2_eq)
  have al: "spec_edges VOLUME_LOADED ROI_DEFINED" by (simp add: spec_edges_def)
  from roi2_callback_recorded [OF roi1_state_fields(1) roi1_state_fields(2) adj, of spec_edges]
    roi1_state_fields(3,4) al update_display_roi1_state
  show "case roi2_callback spec_edges (700, 900, 200, 400) roi1_state of (r, s') \<Rightarrow>
         r = None \<and> roi2_3d s' = Some (60, 150, 450, 650, 511)"
    by (simp add: case_prod_beta)
qed

theorem adjusted_roi2_within_volume_witness:
  "0 \<le> (200 + 400) div (2::int) \<and> (200 + 400) div (2::int) \<le> 512 - 1
   \<and> (0::int) \<le> 400 - 100
   \<and> adjust_roi2 (40, 100, 400, 100, 400) (100, 512, 512) (200, 400, 200, 400)
       = (150, 450, 150, 450)
   \<and> fst (roi2_callback spec_edges (700, 900, 200, 400) roi1_state) = None"
  using adjusted_roi2_within_volume [of 200 400 512 200 400 512 400 100 400 100 40 100]
  by (simp add: adjust_roi2_eq case_prod_beta)

lemma segmenting_state_eq:
  "segmenting_state = roi1_state\<lparr>roi2_3d := Some (60, 150, 450, 150, 450), ui_state := SEGMENTING,
      history_text := [LoadDoneLine, Roi1Line 40 (100, 400, 100, 400),
                       Roi2Line 60 (150, 450, 150, 450),
                       SegStartLine ''lung'' (40, 60, 150, 450, 150, 450)],
      workers := [SegmentationWorker 0 (40, 60, 150, 450, 150, 450)]\<rparr>"
  by (simp add: segmenting_state_def roi1_state_eq init_app_def handler_defs spec_edges_def
        adjust_roi2_eq lung_request_def update_display_def index_ok_def axis_length_def)

lemma segmenting_state_fields:
  "ui_state segmenting_state = SEGMENTING"
  "masks segmenting_state = Map.empty"
  "base_masks segmenting_state = Map.empty"
  "operation_history segmenting_state = []"
  "organ_current segmenting_state = []"
  "heap segmenting_state = []"
  "workers segmenting_state = [SegmentationWorker 0 (40, 60, 150, 450, 150, 450)]"
  "has_both_rois segmenting_state"
  "volume_shape segmenting_state = Some (100, 512, 512)"
  "masks_keys segmenting_state = []"
  "current_view segmenting_state = axial"
  "current_slice segmenting_state = 60"
  "config segmenting_state = get_default_config"
  by (simp_all add: segmenting_state_eq roi1_state_eq init_app_def has_both_rois_def)

lemma update_display_one_mask:
  assumes "config s = get_default_config" "volume_shape s = Some (100, 512, 512)"
    "current_view s = axial" "current_slice s = 60" "masks_keys s = [k]"
    "masks s k = Some a" "heap s ! a = mask0" "k = ''lung'' \<or> k = ''liver''"
  shows "update_display s = None"
  using assms
  by (auto simp: update_display_def index_ok_def axis_length_def get_mask_slice_def shape_of_def
        norm_index_def mask0_def np_any_def organ_color_def subscript_def get_default_config_def)

subsection \<open>Segmentation success\<close>

lemma on_segmentation_finished_result:
  "on_segmentation_finished al now msk st ms s =
     (let k = seg_organ st;
          s3 = s\<lparr>heap := heap s @ [heap s ! msk, (heap s @ [heap s ! msk]) ! msk],
                 base_masks := (base_masks s)(k \<mapsto> length (heap s)),
                 masks := (masks s)(k \<mapsto> Suc (length (heap s))),
                 masks_keys := keys_set k (masks_keys s),
                 organ_items := (if k \<in> set (organ_items s) then organ_items s
                                 else organ_items s @ [k]),
                 organ_current := k,
                 operation_history := operation_history s @
                   [\<lparr>op_timestamp = stamp now st, op_type = segmentation,
                     op_organ = k, op_stats = st\<rparr>]\<rparr>;
          s4 = s3\<lparr>history_text := history_text s @ [SegDoneLine k]\<rparr>;
          s5 = s4\<lparr>ui_state := MASK_READY\<rparr>
      in if isl ms then (Some (projl ms), s3)
         else if \<not> al (ui_state s) MASK_READY then (Some IllegalTransitionError, s4)
         else if update_display s5 \<noteq> None then (update_display s5, s5)
         else (None, s5\<lparr>dialogs := dialogs s @ [InfoSegmentationReady k]\<rparr>))"
  by (cases ms)
     (auto simp: on_segmentation_finished_def np_copy_def alloc_def Let_def
        add_to_history_def show_dialog_def transition_to_def split: option.splits)

lemma seg_finished_fields:
  assumes "msk < length (heap s)"
  shows "heap (snd (on_segmentation_finished al now msk st ms s))
           = heap s @ [heap s ! msk, heap s ! msk]"
    and "base_masks (snd (on_segmentation_finished al now msk st ms s))
           = (base_masks s)(seg_organ st \<mapsto> length (heap s))"
    and "masks (snd (on_segmentation_finished al now msk st ms s))
           = (masks s)(seg_organ st \<mapsto> Suc (length (heap s)))"
    and "organ_current (snd (on_segmentation_finished al now msk st ms s)) = seg_organ st"
    and "operation_history (snd (on_segmentation_finished al now msk st ms s))
           = operation_history s @
               [\<lparr>op_timestamp = stamp now st, op_type = segmentation,
                 op_organ = seg_organ st, op_stats = st\<rparr>]"
  using assms by (simp_all add: on_segmentation_finished_result Let_def nth_append)

lemma seg_finished_state:
  assumes "\<not> isl ms" "al (ui_state s) MASK_READY"
  shows "ui_state (snd (on_segmentation_finished al now msk st ms s)) = MASK_READY"
    and "fst (on_segmentation_finished al now msk st ms s)
           = update_display (snd (on_segmentation_finished al now msk st ms s))"
  using assms
  by (auto simp: on_segmentation_finished_result Let_def update_display_other_fields)

text \<open>
  C3.  A segmentation finishes with the result array \<open>msk\<close> and the statistics \<open>st\<close>; its
  organ \<open>k\<close> is \<open>st['organ_key']\<close>, or \<open>'unknown'\<close> without that key.  In the state the handler
  leaves, whether it returns or raises, the base mask and the current mask of \<open>k\<close> are two
  new array objects, different from each other and from the result array, each holding
  the contents of the result array; the masks of every other organ and every array that
  existed before are untouched; and exactly one record, of kind segmentation and for \<open>k\<close>,
  is appended to the operation history.  When the statistics of the mask are computed and
  the state manager accepts the transition (in the table of the specification: from
  \<open>SEGMENTING\<close>), the state is \<open>MASK_READY\<close>, and the only exception the handler can
  then raise is the one of the repaint that follows.
\<close>

theorem segmentation_success_records_both_masks:
  assumes "msk < length (heap s)"
  shows "let k = (case organ_key st of Some k \<Rightarrow> k | None \<Rightarrow> ''unknown'') in
         case on_segmentation_finished al now msk st ms s of (r, s') \<Rightarrow>
           (\<exists>b c. base_masks s' k = Some b \<and> masks s' k = Some c
                \<and> b \<noteq> c \<and> b \<noteq> msk \<and> c \<noteq> msk
                \<and> length (heap s) \<le> b \<and> length (heap s) \<le> c
                \<and> b < length (heap s') \<and> c < length (heap s')
                \<and> heap s' ! b = heap s ! msk \<and> heap s' ! c = heap s ! msk)
         \<and> (\<forall>k'. k' \<noteq> k \<longrightarrow> base_masks s' k' = base_masks s k' \<and> masks s' k' = masks s k')
         \<and> take (length (heap s)) (heap s') = heap s
         \<and> operation_history s' = operation_history s @
              [\<lparr>op_timestamp = stamp now st, op_type = segmentation,
                op_organ = k, op_stats = st\<rparr>]
         \<and> (\<not> isl ms \<and> al (ui_state s) MASK_READY \<longrightarrow>
              ui_state s' = MASK_READY \<and> r = update_display s')"
proof -
  let ?res = "on_segmentation_finished al now msk st ms s"
  have k: "(case organ_key st of Some k \<Rightarrow> k | None \<Rightarrow> ''unknown'') = seg_organ st"
    by (simp add: seg_organ_def)
  note f = seg_finished_fields [OF assms, of al now st ms]
  have store: "\<exists>b c. base_masks (snd ?res) (seg_organ st) = Some b
                \<and> masks (snd ?res) (seg_organ st) = Some c
                \<and> b \<noteq> c \<and> b \<noteq> msk \<and> c \<noteq> msk
                \<and> length (heap s) \<le> b \<and> length (heap s) \<le> c
                \<and> b < length (heap (snd ?res)) \<and> c < length (heap (snd ?res))
                \<and> heap (snd ?res) ! b = heap s ! msk \<and> heap (snd ?res) ! c = heap s ! msk"
    using assms
    by (intro exI [of _ "length (heap s)"] exI [of _ "Suc (length (heap s))"])
       (simp add: f nth_append)
  have others: "\<forall>k'. k' \<noteq> seg_organ st \<longrightarrow>
      base_masks (snd ?res) k' = base_masks s k' \<and> masks (snd ?res) k' = masks s k'"
    by (simp add: f)
  have old: "take (length (heap s)) (heap (snd ?res)) = heap s" by (simp add: f)
  have st: "\<not> isl ms \<and> al (ui_state s) MASK_READY \<longrightarrow>
              ui_state (snd ?res) = MASK_READY \<and> fst ?res = update_display (snd ?res)"
    using seg_finished_state [of ms al s now msk st] by blast
  show ?thesis
    unfolding Let_def k case_prod_beta using store others old f(5) st by blast
qed

lemma result_state_fields:
  "heap result_state = [mask0]" "ui_state result_state = SEGMENTING"
  "operation_history result_state = []"
  "masks_keys result_state = []" "masks result_state = Map.empty"
  "base_masks result_state = Map.empty"
  "workers result_state = [SegmentationWorker 0 (40, 60, 150, 450, 150, 450)]"
  "config result_state = get_default_config"
  "volume_shape result_state = Some (100, 512, 512)"
  "current_view result_state = axial" "current_slice result_state = 60"
  by (simp_all add: result_state_def segmenting_state_fields)

lemma seg_finished_unchanged:
  "workers (snd (on_segmentation_finished al now msk st ms s)) = workers s"
  "roi1_3d (snd (on_segmentation_finished al now msk st ms s)) = roi1_3d s"
  "roi2_3d (snd (on_segmentation_finished al now msk st ms s)) = roi2_3d s"
  "volume_shape (snd (on_segmentation_finished al now msk st ms s)) = volume_shape s"
  "config (snd (on_segmentation_finished al now msk st ms s)) = config s"
  "current_view (snd (on_segmentation_finished al now msk st ms s)) = current_view s"
  "current_slice (snd (on_segmentation_finished al now msk st ms s)) = current_slice s"
  "masks_keys (snd (on_segmentation_finished al now msk st ms s))
     = keys_set (seg_organ st) (masks_keys s)"
  by (simp_all add: on_segmentation_finished_result Let_def)

lemma lung_organ: "seg_organ lung_stats = ''lung''"
  by (simp add: seg_organ_def lung_stats_def)

lemma mask_ready_state_snd:
  "mask_ready_state
     = snd (on_segmentation_finished spec_edges 0 0 lung_stats (Inr (300, 3 / 10)) result_state)"
  by (simp add: mask_ready_state_def)

lemma mask_ready_state_fields:
  "heap mask_ready_state = [mask0, mask0, mask0]"
  "base_masks mask_ready_state = [''lung'' \<mapsto> Suc 0]"
  "masks mask_ready_state = [''lung'' \<mapsto> Suc (Suc 0)]"
  "organ_current mask_ready_state = ''lung''"
  "ui_state mask_ready_state = MASK_READY"
  "workers mask_ready_state = [SegmentationWorker 0 (40, 60, 150, 450, 150, 450)]"
  "length (operation_history mask_ready_state) = Suc 0"
  "masks_keys mask_ready_state = [''lung'']"
  "config mask_ready_state = get_default_config"
  "volume_shape mask_ready_state = Some (100, 512, 512)"
  "current_view mask_ready_state = axial" "current_slice mask_ready_state = 60"
proof -
  have v: "(0::nat) < length (heap result_state)" by (simp add: result_state_fields)
  note f = seg_finished_fields [OF v, of spec_edges 0 lung_stats "Inr (300, 3 / 10)"]
  note u = seg_finished_unchanged
             [of spec_edges 0 0 lung_stats "Inr (300, 3 / 10)" result_state]
  show "heap mask_ready_state = [mask0, mask0, mask0]"
    "base_masks mask_ready_state = [''lung'' \<mapsto> Suc 0]"
    "masks mask_ready_state = [''lung'' \<mapsto> Suc (Suc 0)]"
    "organ_current mask_ready_state = ''lung''"
    "length (operation_history mask_ready_state) = Suc 0"
    by (simp_all add: mask_ready_state_snd f lung_organ result_state_fields)
  show "workers mask_ready_state = [SegmentationWorker 0 (40, 60, 150, 450, 150, 450)]"
    "masks_keys mask_ready_state = [''lung'']"
    "config mask_ready_state = get_default_config"
    "volume_shape mask_ready_state = Some (100, 512, 512)"
    "current_view mask_ready_state = axial" "current_slice mask_ready_state = 60"
    by (simp_all add: mask_ready_state_snd u lung_organ result_state_fields keys_set_def)
  show "ui_state mask_ready_state = MASK_READY"
    unfolding mask_ready_state_snd
    by (rule seg_finished_state(1)) (simp_all add: result_state_fields spec_edges_def)
qed

lemma update_display_mask_ready_state: "update_display mask_ready_state = None"
  by (rule update_display_one_mask [where k = "''lung''" and a = 2])
     (simp_all add: mask_ready_state_fields)

theorem segmentation_success_records_both_masks_witness:
  "(0::nat) < length (heap result_state)
   \<and> \<not> isl (Inr (300, 3 / 10) :: mask_statistics)
   \<and> spec_edges (ui_state result_state) MASK_READY
   \<and> fst (on_segmentation_finished spec_edges 0 0 lung_stats (Inr (300, 3 / 10)) result_state)
       = None
   \<and> base_masks (snd (on_segmentation_finished spec_edges 0 0 lung_stats (Inr (300, 3 / 10))
                        result_state)) ''lung'' = Some 1
   \<and> masks (snd (on_segmentation_finished spec_edges 0 0 lung_stats (Inr (300, 3 / 10))
                   result_state)) ''lung'' = Some 2
   \<and> heap (snd (on_segmentation_finished spec_edges 0 0 lung_stats (Inr (300, 3 / 10))
                  result_state)) = [mask0, mask0, mask0]
   \<and> ui_state (snd (on_segmentation_finished spec_edges 0 0 lung_stats (Inr (300, 3 / 10))
                      result_state)) = MASK_READY"
proof -
  have a: "(0::nat) < length (heap result_state)" by (simp add: result_state_fields)
  have b: "spec_edges (ui_state result_state) MASK_READY"
    by (simp add: result_state_fields spec_edges_def)
  show ?thesis
    using segmentation_success_records_both_masks
            [where msk = 0 and s = result_state and al = spec_edges and now = 0
               and st = lung_stats and ms = "Inr (300, 3 / 10)"] a b
      update_display_mask_ready_state
    unfolding mask_ready_state_snd [symmetric] case_prod_beta Let_def
    by (simp add: mask_ready_state_fields)
qed

subsection \<open>Job errors\<close>

text \<open>
  C2.  The two error handlers leave the arrays, the current masks, the base masks and the
  operation history exactly as they were, in every state and for every organ.  When the
  state manager accepts the transition (in the table of the specification: from
  \<open>SEGMENTING\<close>, respectively from \<open>REFINING\<close>), a failed segmentation ends in \<open>ROI_DEFINED\<close>
  and a failed refinement in \<open>MASK_READY\<close>.
\<close>

theorem job_error_leaves_masks_and_history:
  "(case on_segmentation_error al msg s of (r, s') \<Rightarrow>
      heap s' = heap s \<and> masks s' = masks s \<and> base_masks s' = base_masks s
      \<and> operation_history s' = operation_history s
      \<and> (al (ui_state s) ROI_DEFINED \<longrightarrow> r = None \<and> ui_state s' = ROI_DEFINED))
   \<and> (case on_refinement_error al msg s of (r, s') \<Rightarrow>
      heap s' = heap s \<and> masks s' = masks s \<and> base_masks s' = base_masks s
      \<and> operation_history s' = operation_history s
      \<and> (al (ui_state s) MASK_READY \<longrightarrow> r = None \<and> ui_state s' = MASK_READY))"
  by (simp add: on_segmentation_error_def on_refinement_error_def transition_to_def
        add_to_history_def show_dialog_def)

subsection \<open>Reset to base\<close>

text \<open>
  C7, as the code has it.  For an organ without a base mask, reset-to-base returns normally
  and changes nothing: no exception, no message box, no line in the log.
\<close>

theorem reset_without_base_is_silent:
  "base_masks s (organ_current s) = None \<Longrightarrow> reset_to_base_mask s = (None, s)"
  by (simp add: reset_to_base_mask_def)

text \<open>
  C7 as stated asks for an error.  During the first segmentation no organ has a base mask,
  and reset-to-base returns without an exception.
\<close>

theorem reset_without_base_raises_nothing:
  "base_masks segmenting_state (organ_current segmenting_state) = None
   \<and> reset_to_base_mask segmenting_state = (None, segmenting_state)"
  by (simp add: reset_to_base_mask_def segmenting_state_fields)

theorem reset_without_base_is_silent_witness:
  "base_masks init_app (organ_current init_app) = None
   \<and> reset_to_base_mask init_app = (None, init_app)"
  using reset_without_base_is_silent [of init_app] by (simp add: init_app_def)

lemma refining_state_fields:
  "heap refining_state = [mask0, mask0, mask0]"
  "base_masks refining_state = [''lung'' \<mapsto> Suc 0]"
  "masks refining_state = [''lung'' \<mapsto> Suc (Suc 0)]"
  "organ_current refining_state = ''lung''"
  "ui_state refining_state = REFINING"
  "workers refining_state = [SegmentationWorker 0 (40, 60, 150, 450, 150, 450),
                             MaskRefinementWorker (Suc 0) some_params ''lung'']"
  "length (operation_history refining_state) = Suc 0"
  by (simp_all add: refining_state_def apply_mask_refinement_def mask_ready_state_fields
        add_to_history_def transition_to_def start_worker_def spec_edges_def Let_def)

theorem job_error_leaves_masks_and_history_witness:
  "spec_edges (ui_state segmenting_state) ROI_DEFINED
   \<and> on_segmentation_error spec_edges ''out of memory'' segmenting_state
       = (None, segmenting_state\<lparr>ui_state := ROI_DEFINED,
                  history_text := history_text segmenting_state @ [SegErrorLine ''out of memory''],
                  dialogs := dialogs segmenting_state @ [CriticalError ''out of memory'']\<rparr>)
   \<and> spec_edges (ui_state refining_state) MASK_READY
   \<and> fst (on_refinement_error spec_edges ''out of memory'' refining_state) = None
   \<and> ui_state (snd (on_refinement_error spec_edges ''out of memory'' refining_state)) = MASK_READY
   \<and> masks (snd (on_refinement_error spec_edges ''out of memory'' refining_state)) ''lung'' = Some 2"
  using job_error_leaves_masks_and_history
          [where al = spec_edges and msg = "''out of memory''" and s = segmenting_state]
    job_error_leaves_masks_and_history
          [where al = spec_edges and msg = "''out of memory''" and s = refining_state]
  by (simp add: segmenting_state_fields refining_state_fields spec_edges_def
        on_segmentation_error_def on_refinement_error_def transition_to_def
        add_to_history_def show_dialog_def)

subsection \<open>Refinement success and reset\<close>

lemma on_refinement_finished_fields:
  "heap (snd (on_refinement_finished al now msk st s)) = heap s"
  "base_masks (snd (on_refinement_finished al now msk st s)) = base_masks s"
  "organ_current (snd (on_refinement_finished al now msk st s)) = organ_current s"
  "masks (snd (on_refinement_finished al now msk st s)) = (masks s)(ref_organ st s \<mapsto> msk)"
  by (simp_all add: on_refinement_finished_def Let_def add_to_history_def transition_to_def)

lemma run_refinements_fields:
  "heap (run_refinements al now rs s) = heap s
   \<and> base_masks (run_refinements al now rs s) = base_masks s
   \<and> organ_current (run_refinements al now rs s) = organ_current s"
proof (induction rs arbitrary: s)
  case Nil
  show ?case by simp
next
  case (Cons r rs)
  obtain msk st where r: "r = (msk, st)" by (cases r)
  show ?case unfolding r using Cons.IH by (simp add: on_refinement_finished_fields)
qed

lemma reset_to_base_mask_result:
  "base_masks s (organ_current s) = Some b \<Longrightarrow>
   snd (reset_to_base_mask s) =
     s\<lparr>heap := heap s @ [heap s ! b],
       masks := (masks s)(organ_current s \<mapsto> length (heap s)),
       masks_keys := keys_set (organ_current s) (masks_keys s),
       history_text := history_text s @ [ResetBaseLine (organ_current s)]\<rparr>
   \<and> fst (reset_to_base_mask s) = update_display (snd (reset_to_base_mask s))"
  by (simp add: reset_to_base_mask_def np_copy_def alloc_def add_to_history_def Let_def)

text \<open>
  C5.  A segmentation finishes for the organ \<open>k\<close> (\<open>st['organ_key']\<close>, or \<open>'unknown'\<close>) with
  the result array \<open>msk\<close>; any finite run of refinement completions follows (for any
  organs, with any result arrays); then reset-to-base is invoked.  In the state it leaves,
  the base mask of \<open>k\<close> is still the object recorded by the segmentation, with the contents
  of the result array; the current mask of \<open>k\<close> is another object with the same contents,
  so that overwriting the current mask with anything leaves the base mask as it is.  The
  only exception reset-to-base can raise is the one of the repaint that follows the copy.
\<close>

theorem reset_to_base_restores_base_mask:
  assumes "msk < length (heap s)"
  shows "let k = (case organ_key st of Some k \<Rightarrow> k | None \<Rightarrow> ''unknown'');
             s1 = snd (on_segmentation_finished al now msk st ms s);
             s2 = run_refinements al now rs s1;
             s3 = snd (reset_to_base_mask s2)
         in fst (reset_to_base_mask s2) = update_display s3
          \<and> (\<exists>b c. base_masks s1 k = Some b \<and> base_masks s3 k = Some b \<and> masks s3 k = Some c
                 \<and> b \<noteq> c \<and> b < length (heap s3) \<and> c < length (heap s3)
                 \<and> heap s1 ! b = heap s ! msk
                 \<and> heap s3 ! b = heap s ! msk
                 \<and> heap s3 ! c = heap s ! msk
                 \<and> (\<forall>v. (heap s3)[c := v] ! b = heap s3 ! b))"
proof -
  define k where "k = seg_organ st"
  define s1 where "s1 = snd (on_segmentation_finished al now msk st ms s)"
  define s2 where "s2 = run_refinements al now rs s1"
  define b where "b = length (heap s)"
  have kk: "(case organ_key st of Some k \<Rightarrow> k | None \<Rightarrow> ''unknown'') = k"
    by (simp add: k_def seg_organ_def)
  have h1: "heap s1 = heap s @ [heap s ! msk, heap s ! msk]"
    and b1: "base_masks s1 k = Some b" and c1: "organ_current s1 = k"
    using assms by (simp_all add: s1_def k_def b_def seg_finished_fields)
  have h2: "heap s2 = heap s1" and b2: "base_masks s2 = base_masks s1"
    and c2: "organ_current s2 = organ_current s1"
    using run_refinements_fields [of al now rs s1] by (simp_all add: s2_def)
  have base: "base_masks s2 (organ_current s2) = Some b" using b1 b2 c1 c2 by simp
  note res = reset_to_base_mask_result [OF base]
  have hb: "heap s1 ! b = heap s ! msk" by (simp add: h1 b_def nth_append)
  have lb: "b < length (heap s1)" by (simp add: h1 b_def)
  have "fst (reset_to_base_mask s2) = update_display (snd (reset_to_base_mask s2))
          \<and> (\<exists>b c. base_masks s1 k = Some b \<and> base_masks (snd (reset_to_base_mask s2)) k = Some b
                 \<and> masks (snd (reset_to_base_mask s2)) k = Some c
                 \<and> b \<noteq> c \<and> b < length (heap (snd (reset_to_base_mask s2)))
                 \<and> c < length (heap (snd (reset_to_base_mask s2)))
                 \<and> heap s1 ! b = heap s ! msk
                 \<and> heap (snd (reset_to_base_mask s2)) ! b = heap s ! msk
                 \<and> heap (snd (reset_to_base_mask s2)) ! c = heap s ! msk
                 \<and> (\<forall>v. (heap (snd (reset_to_base_mask s2)))[c := v] ! b
                          = heap (snd (reset_to_base_mask s2)) ! b))"
  proof (intro conjI)
    show "fst (reset_to_base_mask s2) = update_display (snd (reset_to_base_mask s2))"
      using res by simp
    show "\<exists>b c. base_masks s1 k = Some b \<and> base_masks (snd (reset_to_base_mask s2)) k = Some b
                 \<and> masks (snd (reset_to_base_mask s2)) k = Some c
                 \<and> b \<noteq> c \<and> b < length (heap (snd (reset_to_base_mask s2)))
                 \<and> c < length (heap (snd (reset_to_base_mask s2)))
                 \<and> heap s1 ! b = heap s ! msk
                 \<and> heap (snd (reset_to_base_mask s2)) ! b = heap s ! msk
                 \<and> heap (snd (reset_to_base_mask s2)) ! c = heap s ! msk
                 \<and> (\<forall>v. (heap (snd (reset_to_base_mask s2)))[c := v] ! b
                          = heap (snd (reset_to_base_mask s2)) ! b)"
      unfolding conjunct1 [OF res] using b1 b2 c1 c2 h2 hb lb
      by (intro conjI exI [of _ b] exI [of _ "length (heap s1)"]) (simp_all add: nth_append)
  qed
  then show ?thesis
    unfolding Let_def kk s1_def [symmetric] s2_def [symmetric] .
qed

theorem reset_to_base_restores_base_mask_witness:
  "(0::nat) < length (heap result_state)
   \<and> (let s3 = snd (reset_to_base_mask
                 (run_refinements spec_edges 0 [(0, refined_stats), (2, refined_stats)]
                    (snd (on_segmentation_finished spec_edges 0 0 lung_stats (Inr (300, 3 / 10))
                            result_state))))
      in base_masks s3 ''lung'' = Some 1 \<and> masks s3 ''lung'' = Some 3
         \<and> heap s3 = [mask0, mask0, mask0, mask0])"
proof -
  have a: "(0::nat) < length (heap result_state)" by (simp add: result_state_fields)
  define s2 where
    "s2 = run_refinements spec_edges 0 [(0, refined_stats), (2, refined_stats)] mask_ready_state"
  have f: "heap s2 = [mask0, mask0, mask0]" "base_masks s2 = [''lung'' \<mapsto> Suc 0]"
    "organ_current s2 = ''lung''"
    using run_refinements_fields
            [of spec_edges 0 "[(0, refined_stats), (2, refined_stats)]" mask_ready_state]
    by (simp_all add: s2_def mask_ready_state_fields)
  have "base_masks s2 (organ_current s2) = Some (Suc 0)" by (simp add: f)
  note r = conjunct1 [OF reset_to_base_mask_result [OF this]]
  show ?thesis
    using reset_to_base_restores_base_mask
          [where msk = 0 and s = result_state and al = spec_edges and now = 0
             and st = lung_stats and ms = "Inr (300, 3 / 10)"
             and rs = "[(0, refined_stats), (2, refined_stats)]"] a
    unfolding mask_ready_state_snd [symmetric] s2_def [symmetric] r
    by (simp add: f Let_def)
qed

subsection \<open>Frame of every handler\<close>

lemma frame_load_dicom:
  "base_masks (snd (load_dicom al folder s)) = base_masks s
   \<and> heap (snd (load_dicom al folder s)) = heap s"
  by (simp add: load_dicom_def add_to_history_def start_worker_def transition_to_def Let_def
        split: option.splits)

lemma frame_on_load_finished:
  "base_masks (snd (on_load_finished al shape s)) = base_masks s
   \<and> heap (snd (on_load_finished al shape s)) = heap s"
  by (simp add: on_load_finished_def add_to_history_def show_dialog_def transition_to_def Let_def
        split: option.splits)

lemma frame_on_load_error:
  "base_masks (snd (on_load_error msg s)) = base_masks s
   \<and> heap (snd (on_load_error msg s)) = heap s"
  by (simp add: on_load_error_def add_to_history_def show_dialog_def)

lemma frame_on_slice_changed:
  "base_masks (snd (on_slice_changed v s)) = base_masks s
   \<and> heap (snd (on_slice_changed v s)) = heap s"
  by (simp add: on_slice_changed_def Let_def)

lemma frame_change_view:
  "base_masks (snd (change_view vw s)) = base_masks s
   \<and> heap (snd (change_view vw s)) = heap s"
  by (simp add: change_view_def Let_def split: option.splits)

lemma frame_roi1_callback:
  "base_masks (snd (roi1_callback c s)) = base_masks s
   \<and> heap (snd (roi1_callback c s)) = heap s"
  by (simp add: roi1_callback_def add_to_history_def set_roi1_def Let_def split: prod.splits)

lemma frame_roi2_callback:
  "base_masks (snd (roi2_callback al c s)) = base_masks s
   \<and> heap (snd (roi2_callback al c s)) = heap s"
  by (simp add: roi2_callback_def add_to_history_def set_roi2_def transition_to_def Let_def
        split: option.splits prod.splits)

lemma frame_reset_roi:
  "base_masks (snd (reset_roi al s)) = base_masks s
   \<and> heap (snd (reset_roi al s)) = heap s"
  by (simp add: reset_roi_def add_to_history_def roi_manager_reset_def transition_to_def Let_def
        split: option.splits)

lemma frame_segment_roi:
  "base_masks (snd (segment_roi al req s)) = base_masks s
   \<and> heap (snd (segment_roi al req s)) = heap s"
  by (simp add: segment_roi_def add_to_history_def show_dialog_def start_worker_def
        transition_to_def Let_def split: option.splits sum.splits)

lemma frame_on_segmentation_error:
  "base_masks (snd (on_segmentation_error al msg s)) = base_masks s
   \<and> heap (snd (on_segmentation_error al msg s)) = heap s"
  by (simp add: on_segmentation_error_def add_to_history_def show_dialog_def transition_to_def)

lemma frame_apply_mask_refinement:
  "base_masks (snd (apply_mask_refinement al ps s)) = base_masks s
   \<and> heap (snd (apply_mask_refinement al ps s)) = heap s"
  by (simp add: apply_mask_refinement_def add_to_history_def show_dialog_def start_worker_def
        transition_to_def Let_def split: option.splits)

lemma frame_on_refinement_error:
  "base_masks (snd (on_refinement_error al msg s)) = base_masks s
   \<and> heap (snd (on_refinement_error al msg s)) = heap s"
  by (simp add: on_refinement_error_def add_to_history_def show_dialog_def transition_to_def)

lemma frame_reset_to_base_mask:
  "base_masks (snd (reset_to_base_mask s)) = base_masks s
   \<and> (\<forall>a < length (heap s). heap (snd (reset_to_base_mask s)) ! a = heap s ! a)"
  by (simp add: reset_to_base_mask_def np_copy_def alloc_def add_to_history_def Let_def
        nth_append split: option.splits)

lemmas frames = frame_load_dicom frame_on_load_finished frame_on_load_error
  frame_on_slice_changed frame_change_view frame_roi1_callback
  frame_roi2_callback frame_reset_roi frame_segment_roi frame_on_segmentation_error
  frame_apply_mask_refinement frame_on_refinement_error frame_reset_to_base_mask
  on_refinement_finished_fields

lemma seg_finished_other_base:
  "k \<noteq> seg_organ st \<Longrightarrow>
   base_masks (snd (on_segmentation_finished al now msk st ms s)) k = base_masks s k"
  by (simp add: on_segmentation_finished_result Let_def)

lemma seg_finished_old_arrays:
  "a < length (heap s) \<Longrightarrow>
   heap (snd (on_segmentation_finished al now msk st ms s)) ! a = heap s ! a"
  by (simp add: on_segmentation_finished_result Let_def nth_append)

lemma step_base_masks:
  assumes "base_masks (snd (step al now e s)) k \<noteq> base_masks s k"
  shows "\<exists>m st ms. e = SegmentationFinished m st ms
           \<and> k = (case organ_key st of Some k \<Rightarrow> k | None \<Rightarrow> ''unknown'')"
proof (cases e)
  case (SegmentationFinished m st ms)
  have "k = seg_organ st"
    using assms seg_finished_other_base [of k st al now m ms s]
    unfolding SegmentationFinished by auto
  then have "k = (case organ_key st of Some k \<Rightarrow> k | None \<Rightarrow> ''unknown'')"
    by (simp add: seg_organ_def)
  with SegmentationFinished show ?thesis by blast
qed (use assms in \<open>simp_all add: frames\<close>)

lemma step_heap:
  "a < length (heap s) \<Longrightarrow> heap (snd (step al now e s)) ! a = heap s ! a"
  by (cases e) (simp_all add: frames seg_finished_old_arrays)

lemma refinement_writes_one_organ:
  "masks (snd (on_refinement_finished al now msk st s))
     = (masks s)((case organ_key st of Some k \<Rightarrow> k | None \<Rightarrow> organ_current s) \<mapsto> msk)"
  by (simp add: on_refinement_finished_fields ref_organ_def)

text \<open>
  C6.  The completion handler of a refinement writes the current mask of one organ: the
  one named by \<open>st['organ_key']\<close>, or the one selected in the window when the statistics
  carry no such key.  The current masks of all other organs, all base masks and all arrays
  are unchanged.  Over all handlers of the window, the base mask of an organ \<open>ko\<close> changes
  only when a segmentation finishes whose organ is \<open>ko\<close>, and no handler writes into an
  array that already exists.
\<close>

theorem refinement_overwrites_only_current_mask:
  "(let k = (case organ_key st of Some k \<Rightarrow> k | None \<Rightarrow> organ_current s) in
    case on_refinement_finished al now msk st s of (r, s') \<Rightarrow>
      masks s' k = Some msk
      \<and> (\<forall>k'. k' \<noteq> k \<longrightarrow> masks s' k' = masks s k')
      \<and> base_masks s' = base_masks s \<and> heap s' = heap s)
   \<and> (base_masks (snd (step al now e s)) ko \<noteq> base_masks s ko \<longrightarrow>
        (\<exists>m st' ms. e = SegmentationFinished m st' ms
           \<and> ko = (case organ_key st' of Some k \<Rightarrow> k | None \<Rightarrow> ''unknown'')))
   \<and> (\<forall>a < length (heap s). heap (snd (step al now e s)) ! a = heap s ! a)"
proof (intro conjI)
  show "let k = (case organ_key st of Some k \<Rightarrow> k | None \<Rightarrow> organ_current s) in
    case on_refinement_finished al now msk st s of (r, s') \<Rightarrow>
      masks s' k = Some msk
      \<and> (\<forall>k'. k' \<noteq> k \<longrightarrow> masks s' k' = masks s k')
      \<and> base_masks s' = base_masks s \<and> heap s' = heap s"
    by (simp add: case_prod_beta Let_def refinement_writes_one_organ
          on_refinement_finished_fields(1,2))
  show "base_masks (snd (step al now e s)) ko \<noteq> base_masks s ko \<longrightarrow>
        (\<exists>m st' ms. e = SegmentationFinished m st' ms
           \<and> ko = (case organ_key st' of Some k \<Rightarrow> k | None \<Rightarrow> ''unknown''))"
    using step_base_masks [of al now e s ko] by (rule impI)
  show "\<forall>a < length (heap s). heap (snd (step al now e s)) ! a = heap s ! a"
    using step_heap by blast
qed

theorem refinement_overwrites_only_current_mask_witness:
  "organ_current refining_state = ''lung'' \<and> organ_key liver_stats = Some ''liver''
   \<and> masks (snd (on_refinement_finished spec_edges 0 0 liver_stats refining_state)) ''liver''
       = Some 0
   \<and> masks (snd (on_refinement_finished spec_edges 0 0 liver_stats refining_state)) ''lung''
       = masks refining_state ''lung''
   \<and> masks refining_state ''lung'' = Some 2
   \<and> base_masks (snd (on_refinement_finished spec_edges 0 0 liver_stats refining_state)) ''lung''
       = Some 1
   \<and> base_masks (snd (step spec_edges 0 (SegmentationFinished 0 lung_stats (Inr (300, 3 / 10)))
                         refining_state)) ''lung''
       \<noteq> base_masks refining_state ''lung''
   \<and> (1::nat) < length (heap refining_state)
   \<and> heap (snd (step spec_edges 0 (SegmentationFinished 0 lung_stats (Inr (300, 3 / 10)))
                   refining_state)) ! 1
       = heap refining_state ! 1"
proof -
  have v: "(0::nat) < length (heap refining_state)" by (simp add: refining_state_fields)
  note f = seg_finished_fields [OF v, of spec_edges 0 lung_stats "Inr (300, 3 / 10)"]
  have k: "organ_key liver_stats = Some ''liver''" by (simp add: liver_stats_def)
  have lk: "organ_key lung_stats = Some ''lung''" by (simp add: lung_stats_def)
  have m: "masks (snd (on_refinement_finished spec_edges 0 0 liver_stats refining_state))
             = (masks refining_state)(''liver'' \<mapsto> 0)"
    by (simp add: refinement_writes_one_organ k)
  have b: "base_masks (snd (step spec_edges 0
                 (SegmentationFinished 0 lung_stats (Inr (300, 3 / 10))) refining_state)) ''lung''
             = Some 3"
    by (simp add: f lung_organ refining_state_fields)
  have h: "heap (snd (step spec_edges 0
                 (SegmentationFinished 0 lung_stats (Inr (300, 3 / 10))) refining_state)) ! 1
             = heap refining_state ! 1"
    by (simp add: f refining_state_fields)
  show ?thesis
    using refinement_overwrites_only_current_mask
          [where al = spec_edges and now = 0 and msk = 0 and st = liver_stats
             and s = refining_state
             and e = "SegmentationFinished 0 lung_stats (Inr (300, 3 / 10))"
             and ko = "''lung''"] k m b h lk
    by (simp add: refining_state_fields on_refinement_finished_fields(2))
qed

subsection \<open>Dispatch while a job is active\<close>

lemma spec_edges_busy:
  "\<not> spec_edges SEGMENTING SEGMENTING" "\<not> spec_edges SEGMENTING REFINING"
  "\<not> spec_edges REFINING SEGMENTING" "\<not> spec_edges REFINING REFINING"
  by (simp_all add: spec_edges_def)

lemma segment_roi_not_started:
  assumes n: "\<not> (has_both_rois s \<and> volume_shape s \<noteq> None \<and> \<not> isl (combined_roi req)
                 \<and> model_instance req \<noteq> None \<and> al (ui_state s) SEGMENTING)"
  shows "case segment_roi al req s of (r, s') \<Rightarrow>
           r \<noteq> Some BusyError \<and> workers s' = workers s \<and> ui_state s' = ui_state s
         \<and> heap s' = heap s \<and> masks s' = masks s \<and> base_masks s' = base_masks s
         \<and> operation_history s' = operation_history s
         \<and> (r = Some IllegalTransitionError \<longleftrightarrow>
              has_both_rois s \<and> volume_shape s \<noteq> None
              \<and> \<not> isl (combined_roi req) \<and> model_instance req \<noteq> None)"
proof (cases "has_both_rois s")
  case False
  then show ?thesis by (simp add: segment_roi_def show_dialog_def)
next
  case both: True
  show ?thesis
  proof (cases "volume_shape s")
    case None
    with both show ?thesis by (simp add: segment_roi_def)
  next
    case (Some shape)
    show ?thesis
    proof (cases "combined_roi req")
      case (Inl msg)
      with both Some show ?thesis by (simp add: segment_roi_def show_dialog_def)
    next
      case (Inr roi)
      show ?thesis
      proof (cases "model_instance req")
        case None
        with both Some Inr show ?thesis by (simp add: segment_roi_def show_dialog_def)
      next
        case m: (Some m)
        with both Some Inr n show ?thesis
          by (simp add: segment_roi_def add_to_history_def transition_to_def)
      qed
    qed
  qed
qed

lemma segment_roi_started:
  assumes "has_both_rois s" "volume_shape s \<noteq> None" "\<not> isl (combined_roi req)"
    "model_instance req \<noteq> None" "al (ui_state s) SEGMENTING"
  shows "case segment_roi al req s of (r, s') \<Rightarrow>
           r = None \<and> ui_state s' = SEGMENTING
           \<and> workers s' = workers s @
                [SegmentationWorker (the (model_instance req)) (projr (combined_roi req))]
           \<and> heap s' = heap s \<and> masks s' = masks s \<and> base_masks s' = base_masks s
           \<and> operation_history s' = operation_history s"
proof -
  from assms(3) obtain roi where r: "combined_roi req = Inr roi" by (cases "combined_roi req") auto
  from assms(4) obtain m where m: "model_instance req = Some m" by auto
  from assms(2) obtain shape where sh: "volume_shape s = Some shape" by auto
  show ?thesis using assms(1,5)
    by (simp add: segment_roi_def r m sh add_to_history_def start_worker_def transition_to_def)
qed

lemma apply_mask_refinement_not_started:
  assumes "\<not> (base_masks s (organ_current s) \<noteq> None \<and> al (ui_state s) REFINING)"
  shows "case apply_mask_refinement al ps s of (r, s') \<Rightarrow>
           r \<noteq> Some BusyError \<and> workers s' = workers s \<and> ui_state s' = ui_state s
         \<and> heap s' = heap s \<and> masks s' = masks s \<and> base_masks s' = base_masks s
         \<and> operation_history s' = operation_history s
         \<and> (r = Some IllegalTransitionError \<longleftrightarrow> base_masks s (organ_current s) \<noteq> None)
         \<and> (r = None \<longleftrightarrow> base_masks s (organ_current s) = None)"
  using assms
  by (cases "base_masks s (organ_current s)")
     (simp_all add: apply_mask_refinement_def add_to_history_def show_dialog_def
        transition_to_def Let_def)

lemma apply_mask_refinement_started:
  assumes "base_masks s (organ_current s) \<noteq> None" "al (ui_state s) REFINING"
  shows "case apply_mask_refinement al ps s of (r, s') \<Rightarrow>
           r = None \<and> ui_state s' = REFINING
           \<and> workers s' = workers s @
                [MaskRefinementWorker (the (base_masks s (organ_current s))) ps (organ_current s)]
           \<and> heap s' = heap s \<and> masks s' = masks s \<and> base_masks s' = base_masks s
           \<and> operation_history s' = operation_history s"
proof -
  from assms(1) obtain b where b: "base_masks s (organ_current s) = Some b" by auto
  show ?thesis using assms(2)
    by (simp add: apply_mask_refinement_def b add_to_history_def start_worker_def
          transition_to_def Let_def)
qed

text \<open>
  C1, as the code has it.  In every state, whether or not a job is active, a dispatch never
  ends in \<open>BusyError\<close> and the handlers hold no guard of their own against a second job.
  \<open>_segment_roi\<close> starts a worker exactly when both rectangles are set, the combined box is
  valid, the model is available and the transition of the state manager to \<open>SEGMENTING\<close>
  returns; \<open>_apply_mask_refinement\<close> starts one exactly when the selected organ has a base
  mask and the transition to \<open>REFINING\<close> returns.  Otherwise no worker is started and the
  state stays as it was.  Neither touches the masks, the arrays or the operation history.
\<close>

theorem dispatch_has_no_reentrancy_guard:
  "(case segment_roi al req s of (r, s') \<Rightarrow>
      r \<noteq> Some BusyError
      \<and> heap s' = heap s \<and> masks s' = masks s \<and> base_masks s' = base_masks s
      \<and> operation_history s' = operation_history s
      \<and> (if has_both_rois s \<and> volume_shape s \<noteq> None \<and> \<not> isl (combined_roi req)
              \<and> model_instance req \<noteq> None \<and> al (ui_state s) SEGMENTING
          then r = None \<and> ui_state s' = SEGMENTING
               \<and> workers s' = workers s @
                    [SegmentationWorker (the (model_instance req)) (projr (combined_roi req))]
          else workers s' = workers s \<and> ui_state s' = ui_state s))
   \<and> (case apply_mask_refinement al ps s of (r, s') \<Rightarrow>
      r \<noteq> Some BusyError
      \<and> heap s' = heap s \<and> masks s' = masks s \<and> base_masks s' = base_masks s
      \<and> operation_history s' = operation_history s
      \<and> (if base_masks s (organ_current s) \<noteq> None \<and> al (ui_state s) REFINING
          then r = None \<and> ui_state s' = REFINING
               \<and> workers s' = workers s @
                    [MaskRefinementWorker (the (base_masks s (organ_current s))) ps
                       (organ_current s)]
          else workers s' = workers s \<and> ui_state s' = ui_state s))"
proof (intro conjI)
  show "case segment_roi al req s of (r, s') \<Rightarrow>
      r \<noteq> Some BusyError
      \<and> heap s' = heap s \<and> masks s' = masks s \<and> base_masks s' = base_masks s
      \<and> operation_history s' = operation_history s
      \<and> (if has_both_rois s \<and> volume_shape s \<noteq> None \<and> \<not> isl (combined_roi req)
              \<and> model_instance req \<noteq> None \<and> al (ui_state s) SEGMENTING
          then r = None \<and> ui_state s' = SEGMENTING
               \<and> workers s' = workers s @
                    [SegmentationWorker (the (model_instance req)) (projr (combined_roi req))]
          else workers s' = workers s \<and> ui_state s' = ui_state s)"
  proof (cases "has_both_rois s \<and> volume_shape s \<noteq> None \<and> \<not> isl (combined_roi req)
              \<and> model_instance req \<noteq> None \<and> al (ui_state s) SEGMENTING")
    case True
    then show ?thesis
      using segment_roi_started [where s = s and req = req and al = al]
      by (simp add: case_prod_beta)
  next
    case False
    then show ?thesis
      using segment_roi_not_started [where s = s and req = req and al = al]
      by (simp add: case_prod_beta)
  qed
  show "case apply_mask_refinement al ps s of (r, s') \<Rightarrow>
      r \<noteq> Some BusyError
      \<and> heap s' = heap s \<and> masks s' = masks s \<and> base_masks s' = base_masks s
      \<and> operation_history s' = operation_history s
      \<and> (if base_masks s (organ_current s) \<noteq> None \<and> al (ui_state s) REFINING
          then r = None \<and> ui_state s' = REFINING
               \<and> workers s' = workers s @
                    [MaskRefinementWorker (the (base_masks s (organ_current s))) ps
                       (organ_current s)]
          else workers s' = workers s \<and> ui_state s' = ui_state s)"
  proof (cases "base_masks s (organ_current s) \<noteq> None \<and> al (ui_state s) REFINING")
    case True
    then show ?thesis
      using apply_mask_refinement_started [where s = s and ps = ps and al = al]
      by (simp add: case_prod_beta)
  next
    case False
    then show ?thesis
      using apply_mask_refinement_not_started [where s = s and ps = ps and al = al]
      by (simp add: case_prod_beta)
  qed
qed

lemma lung_request_fields:
  "combined_roi lung_request = Inr (40, 60, 150, 450, 150, 450)"
  "model_instance lung_request = Some 0" "model_name lung_request = ''lung''"
  by (simp_all add: lung_request_def)

lemma redispatched_state_fields:
  "ui_state redispatched_state = SEGMENTING"
  "workers redispatched_state = [SegmentationWorker 0 (40, 60, 150, 450, 150, 450),
                                 SegmentationWorker 0 (40, 60, 150, 450, 150, 450)]"
  by (simp_all add: redispatched_state_def segmenting_state_eq roi1_state_eq init_app_def
        handler_defs spec_edges_def adjust_roi2_eq lung_request_def update_display_def
        index_ok_def axis_length_def)

text \<open>
  C1 as stated asks for \<open>BusyError\<close>, for a guard inside the dispatch and for no second
  worker.  While the first segmentation runs, a second \<open>_segment_roi\<close> ends in
  \<open>IllegalTransitionError\<close> with the table of the specification, and
  \<open>_apply_mask_refinement\<close> returns without any exception.  With a state manager that
  lets the transition pass, \<open>_segment_roi\<close> starts a second worker; and with the table of
  the specification itself, a rectangle drawn with the selector of ROI2 puts the state
  back to \<open>ROI_DEFINED\<close>, and the next dispatch starts a second worker.
\<close>

theorem second_dispatch_never_busy_error:
  "ui_state segmenting_state = SEGMENTING
   \<and> workers segmenting_state = [SegmentationWorker 0 (40, 60, 150, 450, 150, 450)]
   \<and> fst (segment_roi spec_edges lung_request segmenting_state) = Some IllegalTransitionError
   \<and> fst (apply_mask_refinement spec_edges some_params segmenting_state) = None
   \<and> fst (segment_roi (\<lambda>a b. True) lung_request segmenting_state) = None
   \<and> workers (snd (segment_roi (\<lambda>a b. True) lung_request segmenting_state))
       = [SegmentationWorker 0 (40, 60, 150, 450, 150, 450),
          SegmentationWorker 0 (40, 60, 150, 450, 150, 450)]
   \<and> redispatched_state
       = run spec_edges 0 [Roi2Drawn (200, 400, 200, 400), SegmentRoi lung_request]
           segmenting_state
   \<and> workers redispatched_state
       = [SegmentationWorker 0 (40, 60, 150, 450, 150, 450),
          SegmentationWorker 0 (40, 60, 150, 450, 150, 450)]"
proof -
  have n1: "\<not> (has_both_rois segmenting_state \<and> volume_shape segmenting_state \<noteq> None
                 \<and> \<not> isl (combined_roi lung_request) \<and> model_instance lung_request \<noteq> None
                 \<and> spec_edges (ui_state segmenting_state) SEGMENTING)"
    by (simp add: segmenting_state_fields spec_edges_busy)
  have n2: "\<not> (base_masks segmenting_state (organ_current segmenting_state) \<noteq> None
                 \<and> spec_edges (ui_state segmenting_state) REFINING)"
    by (simp add: segmenting_state_fields)
  have a: "fst (segment_roi spec_edges lung_request segmenting_state)
             = Some IllegalTransitionError"
    using segment_roi_not_started
            [where al = spec_edges and s = segmenting_state and req = lung_request, OF n1]
    by (simp add: case_prod_beta segmenting_state_fields lung_request_fields)
  have b: "fst (apply_mask_refinement spec_edges some_params segmenting_state) = None"
    using apply_mask_refinement_not_started
            [where al = spec_edges and s = segmenting_state and ps = some_params, OF n2]
    by (simp add: case_prod_beta segmenting_state_fields)
  have c: "fst (segment_roi (\<lambda>a b. True) lung_request segmenting_state) = None
     \<and> workers (snd (segment_roi (\<lambda>a b. True) lung_request segmenting_state))
         = [SegmentationWorker 0 (40, 60, 150, 450, 150, 450),
            SegmentationWorker 0 (40, 60, 150, 450, 150, 450)]"
    using segment_roi_started
            [where al = "\<lambda>a b. True" and s = segmenting_state and req = lung_request]
    by (simp add: case_prod_beta segmenting_state_fields lung_request_fields)
  show ?thesis
    using a b c
    by (simp add: segmenting_state_fields redispatched_state_fields)
       (simp add: redispatched_state_def)
qed

lemma apply_mask_refinement_rois:
  "roi1_3d (snd (apply_mask_refinement al ps s)) = roi1_3d s"
  "roi2_3d (snd (apply_mask_refinement al ps s)) = roi2_3d s"
  "volume_shape (snd (apply_mask_refinement al ps s)) = volume_shape s"
  by (simp_all add: apply_mask_refinement_def Let_def add_to_history_def start_worker_def
        transition_to_def show_dialog_def split: option.splits)

lemma refining_state_rois:
  "has_both_rois refining_state" "volume_shape refining_state = Some (100, 512, 512)"
proof -
  have eqs: "roi1_3d refining_state = roi1_3d segmenting_state"
    "roi2_3d refining_state = roi2_3d segmenting_state"
    "volume_shape refining_state = volume_shape segmenting_state"
    by (simp_all add: refining_state_def mask_ready_state_snd apply_mask_refinement_rois
          seg_finished_unchanged result_state_def)
  have "has_both_rois refining_state = has_both_rois segmenting_state"
    by (simp only: has_both_rois_def eqs)
  then show "has_both_rois refining_state" by (simp only: segmenting_state_fields(8))
  show "volume_shape refining_state = Some (100, 512, 512)"
    by (simp only: eqs segmenting_state_fields(9))
qed

theorem dispatch_has_no_reentrancy_guard_witness:
  "ui_state refining_state = REFINING
   \<and> workers refining_state = [SegmentationWorker 0 (40, 60, 150, 450, 150, 450),
                               MaskRefinementWorker 1 some_params ''lung'']
   \<and> has_both_rois refining_state \<and> volume_shape refining_state \<noteq> None
   \<and> \<not> isl (combined_roi lung_request) \<and> model_instance lung_request \<noteq> None
   \<and> base_masks refining_state (organ_current refining_state) \<noteq> None
   \<and> fst (segment_roi (\<lambda>a b. True) lung_request refining_state) = None
   \<and> workers (snd (segment_roi (\<lambda>a b. True) lung_request refining_state))
       = workers refining_state @ [SegmentationWorker 0 (40, 60, 150, 450, 150, 450)]
   \<and> fst (apply_mask_refinement (\<lambda>a b. True) some_params refining_state) = None
   \<and> workers (snd (apply_mask_refinement (\<lambda>a b. True) some_params refining_state))
       = workers refining_state @ [MaskRefinementWorker 1 some_params ''lung'']"
  using dispatch_has_no_reentrancy_guard
          [where s = refining_state and req = lung_request and ps = some_params
             and al = "\<lambda>a b. True"] refining_state_rois
  by (simp add: case_prod_beta lung_request_fields refining_state_fields)

subsection \<open>The recorded rectangle\<close>

lemma recentred_axis:
  fixes c w n :: int
  assumes "0 \<le> c - w div 2" "c - w div 2 + w \<le> n - 1"
  shows "max 0 (c - w div 2) = c - w div 2"
    and "min (n - 1) (max 0 (c - w div 2) + w) - max 0 (c - w div 2) = w"
    and "(max 0 (c - w div 2) + min (n - 1) (max 0 (c - w div 2) + w)) div 2 = c"
proof -
  show a: "max 0 (c - w div 2) = c - w div 2" using assms by simp
  have b: "min (n - 1) (c - w div 2 + w) = c - w div 2 + w" using assms by simp
  show "min (n - 1) (max 0 (c - w div 2) + w) - max 0 (c - w div 2) = w"
    by (simp add: a b)
  have "(c - w div 2 + (c - w div 2 + w)) div 2 = c" by presburger
  then show "(max 0 (c - w div 2) + min (n - 1) (max 0 (c - w div 2) + w)) div 2 = c"
    by (simp add: a b)
qed

text \<open>
  C4, as the code has it.  With ROI1 of width \<open>w\<close> and height \<open>h\<close> and a raw rectangle with
  centroid \<open>(cx, cy)\<close> (floor division), the rectangle recorded for ROI2 on the current
  slice is \<open>x_min = max 0 (cx - w div 2)\<close>, \<open>x_max = min (X - 1) (x_min + w)\<close>, and likewise on
  \<open>y\<close>: the lower edge is clamped at 0, and the upper edge is taken from the clamped lower
  edge and clamped at \<open>dim - 1\<close>.  Whenever the recentred rectangle
  \<open>[cx - w div 2, cx - w div 2 + w]\<close> lies within \<open>[0, X - 1]\<close>, the recorded rectangle has
  exactly ROI1's width and is centred on \<open>cx\<close>; likewise on \<open>y\<close>.  On a volume of shape
  (100, 512, 512) with ROI1 x = [100, 400], y = [100, 400], every raw rectangle centred at
  (300, 300) gives x = [150, 450], y = [150, 450].
\<close>

theorem recorded_roi2_rectangle:
  "(roi1_3d s = Some (z, roi1_y0, roi1_y1, roi1_x0, roi1_x1) \<and> volume_shape s = Some (Z, Y, X) \<longrightarrow>
     (\<exists>xa xb ya yb.
        roi2_3d (snd (roi2_callback al (x_min, x_max, y_min, y_max) s))
          = Some (current_slice s, ya, yb, xa, xb)
      \<and> xa = max 0 ((x_min + x_max) div 2 - (roi1_x1 - roi1_x0) div 2)
      \<and> xb = min (X - 1) (xa + (roi1_x1 - roi1_x0))
      \<and> ya = max 0 ((y_min + y_max) div 2 - (roi1_y1 - roi1_y0) div 2)
      \<and> yb = min (Y - 1) (ya + (roi1_y1 - roi1_y0))
      \<and> 0 \<le> xa \<and> xb \<le> X - 1 \<and> 0 \<le> ya \<and> yb \<le> Y - 1
      \<and> (0 \<le> (x_min + x_max) div 2 - (roi1_x1 - roi1_x0) div 2
           \<and> (x_min + x_max) div 2 - (roi1_x1 - roi1_x0) div 2 + (roi1_x1 - roi1_x0) \<le> X - 1 \<longrightarrow>
          xb - xa = roi1_x1 - roi1_x0 \<and> (xa + xb) div 2 = (x_min + x_max) div 2)
      \<and> (0 \<le> (y_min + y_max) div 2 - (roi1_y1 - roi1_y0) div 2
           \<and> (y_min + y_max) div 2 - (roi1_y1 - roi1_y0) div 2 + (roi1_y1 - roi1_y0) \<le> Y - 1 \<longrightarrow>
          yb - ya = roi1_y1 - roi1_y0 \<and> (ya + yb) div 2 = (y_min + y_max) div 2)))
   \<and> ((x_min + x_max) div 2 = 300 \<and> (y_min + y_max) div 2 = 300 \<longrightarrow>
        adjust_roi2 (40, 100, 400, 100, 400) (100, 512, 512) (x_min, x_max, y_min, y_max)
          = (150, 450, 150, 450))"
proof (intro conjI impI)
  assume st: "roi1_3d s = Some (z, roi1_y0, roi1_y1, roi1_x0, roi1_x1) \<and> volume_shape s = Some (Z, Y, X)"
  define w where "w = roi1_x1 - roi1_x0"
  define h where "h = roi1_y1 - roi1_y0"
  define cx where "cx = (x_min + x_max) div 2"
  define cy where "cy = (y_min + y_max) div 2"
  define xa where "xa = max 0 (cx - w div 2)"
  define xb where "xb = min (X - 1) (xa + w)"
  define ya where "ya = max 0 (cy - h div 2)"
  define yb where "yb = min (Y - 1) (ya + h)"
  have adj: "adjust_roi2 (z, roi1_y0, roi1_y1, roi1_x0, roi1_x1) (Z, Y, X)
               (x_min, x_max, y_min, y_max) = (xa, xb, ya, yb)"
    by (simp add: adjust_roi2_eq xa_def xb_def ya_def yb_def w_def h_def cx_def cy_def)
  from st have r1: "roi1_3d s = Some (z, roi1_y0, roi1_y1, roi1_x0, roi1_x1)"
    and vs: "volume_shape s = Some (Z, Y, X)" by simp_all
  have rec: "roi2_3d (snd (roi2_callback al (x_min, x_max, y_min, y_max) s))
          = Some (current_slice s, ya, yb, xa, xb)"
    using roi2_callback_recorded [where al = al, OF r1 vs adj] by simp
  have bounds: "0 \<le> xa" "xb \<le> X - 1" "0 \<le> ya" "yb \<le> Y - 1"
    by (simp_all add: xa_def xb_def ya_def yb_def)
  have x: "0 \<le> cx - w div 2 \<and> cx - w div 2 + w \<le> X - 1 \<longrightarrow>
             xb - xa = w \<and> (xa + xb) div 2 = cx"
    unfolding xb_def xa_def using recentred_axis(2,3) [of cx w X] by blast
  have y: "0 \<le> cy - h div 2 \<and> cy - h div 2 + h \<le> Y - 1 \<longrightarrow>
             yb - ya = h \<and> (ya + yb) div 2 = cy"
    unfolding yb_def ya_def using recentred_axis(2,3) [of cy h Y] by blast
  show "\<exists>xa xb ya yb.
        roi2_3d (snd (roi2_callback al (x_min, x_max, y_min, y_max) s))
          = Some (current_slice s, ya, yb, xa, xb)
      \<and> xa = max 0 ((x_min + x_max) div 2 - (roi1_x1 - roi1_x0) div 2)
      \<and> xb = min (X - 1) (xa + (roi1_x1 - roi1_x0))
      \<and> ya = max 0 ((y_min + y_max) div 2 - (roi1_y1 - roi1_y0) div 2)
      \<and> yb = min (Y - 1) (ya + (roi1_y1 - roi1_y0))
      \<and> 0 \<le> xa \<and> xb \<le> X - 1 \<and> 0 \<le> ya \<and> yb \<le> Y - 1
      \<and> (0 \<le> (x_min + x_max) div 2 - (roi1_x1 - roi1_x0) div 2
           \<and> (x_min + x_max) div 2 - (roi1_x1 - roi1_x0) div 2 + (roi1_x1 - roi1_x0) \<le> X - 1 \<longrightarrow>
          xb - xa = roi1_x1 - roi1_x0 \<and> (xa + xb) div 2 = (x_min + x_max) div 2)
      \<and> (0 \<le> (y_min + y_max) div 2 - (roi1_y1 - roi1_y0) div 2
           \<and> (y_min + y_max) div 2 - (roi1_y1 - roi1_y0) div 2 + (roi1_y1 - roi1_y0) \<le> Y - 1 \<longrightarrow>
          yb - ya = roi1_y1 - roi1_y0 \<and> (ya + yb) div 2 = (y_min + y_max) div 2)"
    unfolding w_def [symmetric] h_def [symmetric] cx_def [symmetric] cy_def [symmetric]
    using rec bounds x y
    by (intro exI [of _ xa] exI [of _ xb] exI [of _ ya] exI [of _ yb] conjI)
       (simp_all only: xa_def xb_def ya_def yb_def)
next
  assume "(x_min + x_max) div 2 = 300 \<and> (y_min + y_max) div 2 = 300"
  then show "adjust_roi2 (40, 100, 400, 100, 400) (100, 512, 512) (x_min, x_max, y_min, y_max)
          = (150, 450, 150, 450)"
    by (simp add: adjust_roi2_eq)
qed

theorem recorded_roi2_rectangle_witness:
  "roi1_3d roi1_state = Some (40, 100, 400, 100, 400)
   \<and> volume_shape roi1_state = Some (100, 512, 512)
   \<and> roi2_3d (snd (roi2_callback spec_edges (200, 400, 200, 400) roi1_state))
       = Some (60, 150, 450, 150, 450)
   \<and> (200 + 400) div 2 = (300::int)
   \<and> (0::int) \<le> (200 + 400) div 2 - (400 - 100) div 2
   \<and> (200 + 400) div 2 - (400 - 100) div 2 + (400 - 100) \<le> (512::int) - 1
   \<and> adjust_roi2 (40, 100, 400, 100, 400) (100, 512, 512) (200, 400, 200, 400)
       = (150, 450, 150, 450)"
  using recorded_roi2_rectangle
          [where s = roi1_state and z = 40 and ?roi1_y0.0 = 100 and ?roi1_y1.0 = 400
             and ?roi1_x0.0 = 100 and ?roi1_x1.0 = 400 and Z = 100 and Y = 512 and X = 512
             and al = spec_edges and x_min = 200 and x_max = 400 and y_min = 200 and y_max = 400]
  by (simp add: roi1_state_fields)

text \<open>
  C4 as stated fails where the lower edge is clamped.  With ROI1 x = [100, 400] on a
  512-wide volume, the raw rectangle x = [50, 150] has its centroid at 100; the recorded
  rectangle is x = [0, 300], whose centre is 150, and recentring followed by clipping of
  both edges would give x = [0, 250].
\<close>

theorem roi2_clamped_at_lower_edge:
  "roi2_3d (snd (roi2_callback spec_edges (50, 150, 250, 350) roi1_state))
     = Some (60, 150, 450, 0, 300)
   \<and> adjust_roi2 (40, 100, 400, 100, 400) (100, 512, 512) (50, 150, 250, 350)
       = (0, 300, 150, 450)
   \<and> recenter_then_clip (40, 100, 400, 100, 400) (100, 512, 512) (50, 150, 250, 350)
       = (0, 250, 150, 450)
   \<and> ((0::int) + 300) div 2 \<noteq> (50 + 150) div 2"
proof -
  have adj: "adjust_roi2 (40, 100, 400, 100, 400) (100, 512, 512) (50, 150, 250, 350)
               = (0, 300, 150, 450)"
    by (simp add: adjust_roi2_eq)
  have rec: "roi2_3d (snd (roi2_callback spec_edges (50, 150, 250, 350) roi1_state))
     = Some (60, 150, 450, 0, 300)"
    using roi2_callback_recorded
            [where al = spec_edges, OF roi1_state_fields(1) roi1_state_fields(2) adj]
    by (simp add: roi1_state_fields)
  have sp: "recenter_then_clip (40, 100, 400, 100, 400) (100, 512, 512) (50, 150, 250, 350)
       = (0, 250, 150, 450)"
    by (simp add: recenter_then_clip_def clip_def)
  show ?thesis using adj rec sp by simp
qed

subsection \<open>Configuration\<close>

lemma init_reads_default: "init_reads get_default_config = None"
  by (simp add: init_reads_def get_default_config_def subscript_def)

text \<open>
  C8, as the code has it.  When the configuration file does not exist, \<open>_load_config\<close>
  returns the built-in defaults and shows one warning; the entries that the constructor
  reads are present in the defaults; and \<open>main\<close> returns what the event loop returns,
  unless the rest of the construction raises.  The warning and the fall-back belong to the
  missing file only.
\<close>

theorem missing_config_falls_back_to_defaults:
  "load_config FileNotFound = (Inr get_default_config, [WarnConfigNotFound])
   \<and> init_reads get_default_config = None
   \<and> window_init rest FileNotFound =
       (case rest get_default_config of
          None \<Rightarrow> (Inr get_default_config, [WarnConfigNotFound])
        | Some e \<Rightarrow> (Inl e, [WarnConfigNotFound]))
   \<and> main rest exec_code FileNotFound
       = (if rest get_default_config = None then exec_code else 1)
   \<and> (snd (load_config cf) = [WarnConfigNotFound] \<longleftrightarrow> cf = FileNotFound)"
  by (cases cf)
     (simp_all add: load_config_def window_init_def main_def init_reads_default
        split: option.splits)

theorem missing_config_falls_back_to_defaults_witness:
  "main (\<lambda>cfg. None) 0 FileNotFound = 0
   \<and> fst (window_init (\<lambda>cfg. None) FileNotFound) = Inr get_default_config
   \<and> snd (load_config FileNotFound) = [WarnConfigNotFound]"
  using missing_config_falls_back_to_defaults [of "\<lambda>cfg. None" 0 FileNotFound]
  by simp

text \<open>
  C8 as stated covers a file that does not parse.  There \<open>_load_config\<close> raises, shows no
  warning and returns no defaults, and \<open>main\<close> returns 1.
\<close>

theorem unparseable_config_is_fatal:
  "load_config Malformed = (Inl YAMLError, [])
   \<and> main (\<lambda>cfg. None) 0 Malformed = 1"
  by (simp add: load_config_def window_init_def main_def)

end
